theory Spec2Isabelle
  imports Complex_Main "HOL-Library.Sublist" "HOL-Library.Multiset" "HOL-Library.Log_Nat"
begin


section \<open>Strings and patterns\<close>

text \<open>
  A Python \<open>str\<close> is modelled as a \<open>string\<close> of 8-bit characters, and \<open>lower\<close>,
  \<open>upper\<close> and the character classes of \<open>re\<close> are the ASCII ones: the model follows
  Python on ASCII text.
\<close>

definition ascii_uppercase :: string where
  "ascii_uppercase = ''ABCDEFGHIJKLMNOPQRSTUVWXYZ''"

definition ascii_lowercase :: string where
  "ascii_lowercase = ''abcdefghijklmnopqrstuvwxyz''"

definition lower_char :: "char \<Rightarrow> char" where
  "lower_char c =
     (case map_of (zip ascii_uppercase ascii_lowercase) c of Some d \<Rightarrow> d | None \<Rightarrow> c)"

definition upper_char :: "char \<Rightarrow> char" where
  "upper_char c =
     (case map_of (zip ascii_lowercase ascii_uppercase) c of Some d \<Rightarrow> d | None \<Rightarrow> c)"

text \<open>\<open>s.lower()\<close> and \<open>s.upper()\<close>.\<close>

definition lower :: "string \<Rightarrow> string" where
  "lower s = map lower_char s"

definition upper :: "string \<Rightarrow> string" where
  "upper s = map upper_char s"

text \<open>\<open>sub in s\<close> on strings: \<open>sub\<close> occurs in \<open>s\<close> as a contiguous substring.\<close>

fun py_in :: "string \<Rightarrow> string \<Rightarrow> bool" where
  "py_in sub [] = (sub = [])"
| "py_in sub (c # cs) = (prefix sub (c # cs) \<or> py_in sub cs)"

text \<open>
  The regular expressions of the detectors are sequences of items: one character of a
  class (a literal character is the class of that character), an optional character
  (\<open>?\<close>), or a run of zero or more characters (\<open>*\<close>; \<open>x+\<close> is \<open>x\<close> followed by \<open>x*\<close>).
  \<open>match_here\<close> tries every way of matching a pattern at the start of a text, as a
  backtracking matcher does, and \<open>re_search\<close> tries every start position:
  \<open>re.search(pattern, text)\<close> finds a match exactly when \<open>re_search\<close> is true.
\<close>

datatype rx = One "char \<Rightarrow> bool" | Maybe "char \<Rightarrow> bool" | Many "char \<Rightarrow> bool"

fun match_here :: "rx list \<Rightarrow> string \<Rightarrow> bool" where
  "match_here [] s = True"
| "match_here (One p # r) [] = False"
| "match_here (One p # r) (c # cs) = (p c \<and> match_here r cs)"
| "match_here (Maybe p # r) [] = match_here r []"
| "match_here (Maybe p # r) (c # cs) = ((p c \<and> match_here r cs) \<or> match_here r (c # cs))"
| "match_here (Many p # r) [] = match_here r []"
| "match_here (Many p # r) (c # cs) =
     ((p c \<and> match_here (Many p # r) cs) \<or> match_here r (c # cs))"

fun re_search :: "rx list \<Rightarrow> string \<Rightarrow> bool" where
  "re_search r [] = match_here r []"
| "re_search r (c # cs) = (match_here r (c # cs) \<or> re_search r cs)"

text \<open>A literal piece of a pattern, and the classes \<open>\d\<close>, \<open>\s\<close>, \<open>\w\<close> and \<open>[\d,]\<close>.\<close>

definition lit :: "string \<Rightarrow> rx list" where
  "lit s = map (\<lambda>c. One (\<lambda>x. x = c)) s"

definition is_digit :: "char \<Rightarrow> bool" where
  "is_digit c = (c \<in> set ''0123456789'')"

definition is_space :: "char \<Rightarrow> bool" where
  "is_space c =
     (c \<in> {CHR '' '', CHR 0x09, CHR 0x0A, CHR 0x0B, CHR 0x0C, CHR 0x0D,
           CHR 0x1C, CHR 0x1D, CHR 0x1E, CHR 0x1F})"

definition is_word :: "char \<Rightarrow> bool" where
  "is_word c =
     (c \<in> set ascii_lowercase \<or> c \<in> set ascii_uppercase \<or> is_digit c \<or> c = CHR ''_'')"

definition is_digit_or_comma :: "char \<Rightarrow> bool" where
  "is_digit_or_comma c = (is_digit c \<or> c = CHR '','')"

text \<open>\<open>any(re.search(pattern, text) for pattern in keywords)\<close>.\<close>

definition any_search :: "rx list list \<Rightarrow> string \<Rightarrow> bool" where
  "any_search keywords text = list_ex (\<lambda>pattern. re_search pattern text) keywords"

section \<open>Signal detector (lead/detector.py)\<close>

definition detect_budget_mention :: "string \<Rightarrow> bool" where
  "detect_budget_mention text =
     any_search
       [lit ''$'' @ [One is_digit_or_comma, Many is_digit_or_comma],
        lit ''aed'' @ [Maybe is_space, One is_digit_or_comma, Many is_digit_or_comma],
        lit ''budget'', lit ''price'', lit ''cost'', lit ''afford'', lit ''million'',
        lit ''thousand'', lit ''payment'', lit ''financing''] text"

definition detect_specific_requirements :: "string \<Rightarrow> bool" where
  "detect_specific_requirements text =
     any_search
       [[One is_digit, Many is_digit, Many is_space] @ lit ''bedroom'',
        [One is_digit, Many is_digit] @ lit ''br'',
        lit ''pool'', lit ''garden'', lit ''parking'', lit ''sqm'', lit ''square'',
        lit ''layout'', lit ''master bedroom'', lit ''ensuite'', lit ''maid room'',
        lit ''storage'', lit ''terrace'', lit ''balcony''] text"

definition detect_timeline :: "string \<Rightarrow> bool" where
  "detect_timeline text =
     any_search
       [lit ''soon'', lit ''urgently'', lit ''asap'', lit ''immediately'', lit ''next month'',
        lit ''by'' @ [One is_space, Many is_space, One is_word, Many is_word],
        lit ''looking to move'', lit ''need by'', lit ''within'', lit ''this year'',
        lit ''next year'',
        [One is_digit, Many is_digit, Many is_space] @ lit ''month''
          @ [Maybe (\<lambda>x. x = CHR ''s'')]] text"

definition detect_location_preference :: "string \<Rightarrow> bool" where
  "detect_location_preference text =
     any_search
       [lit ''dubai'', lit ''festival city'', lit ''al badia'', lit ''area'', lit ''location'',
        lit ''neighborhood'', lit ''near'', lit ''close to'', lit ''proximity''] text"

definition detect_luxury_interest :: "string \<Rightarrow> bool" where
  "detect_luxury_interest text =
     any_search
       [lit ''luxury'', lit ''premium'', lit ''high-end'', lit ''upscale'', lit ''exclusive'',
        lit ''pool'', lit ''golf'', lit ''spa'', lit ''gym'', lit ''clubhouse''] text"

definition detect_comparison_intent :: "string \<Rightarrow> bool" where
  "detect_comparison_intent text =
     any_search
       [lit ''compare'', lit ''versus'', lit ''vs'', lit ''difference'', lit ''better'',
        lit ''which one'', lit ''or'', lit ''between''] text"

definition detect_purchase_questions :: "string \<Rightarrow> bool" where
  "detect_purchase_questions text =
     any_search
       [lit ''how to buy'', lit ''purchase'', lit ''documentation'', lit ''paperwork'',
        lit ''mortgage'', lit ''loan'', lit ''financing'', lit ''down payment'',
        lit ''process'', lit ''steps'', lit ''requirements''] text"

definition detect_viewing_interest :: "string \<Rightarrow> bool" where
  "detect_viewing_interest text =
     any_search
       [lit ''visit'', lit ''view'', lit ''see'', lit ''tour'', lit ''show'', lit ''schedule'',
        lit ''appointment'', lit ''when can'', lit ''available to see''] text"

definition detect_current_situation :: "string \<Rightarrow> bool" where
  "detect_current_situation text =
     any_search
       [lit ''currently'', lit ''renting'', lit ''selling'', lit ''own'', lit ''living in'',
        lit ''lease'', lit ''tenant'', lit ''landlord'', lit ''moving from''] text"

text \<open>\<open>if cond: signals.append(tag)\<close>.\<close>

definition append_if :: "bool \<Rightarrow> string \<Rightarrow> string list \<Rightarrow> string list" where
  "append_if cond tag signals = (if cond then signals @ [tag] else signals)"

text \<open>
  \<open>detect_buying_signals(message, conversation_history)\<close>: the history is an argument of
  the function, of any type of messages.
\<close>

definition detect_buying_signals :: "string \<Rightarrow> 'h list \<Rightarrow> string list" where
  "detect_buying_signals message conversation_history =
     (let signals = [];
          message_lower = lower message;
          signals = append_if (detect_budget_mention message_lower) ''budget_mentioned'' signals;
          signals = append_if (detect_specific_requirements message_lower)
                      ''specific_requirements'' signals;
          signals = append_if (detect_timeline message_lower) ''timeline_mentioned'' signals;
          signals = append_if (detect_location_preference message_lower)
                      ''location_preference'' signals;
          signals = append_if (detect_luxury_interest message_lower)
                      ''luxury_feature_interest'' signals;
          signals = append_if (detect_comparison_intent message_lower)
                      ''comparison_intent'' signals;
          signals = append_if (detect_purchase_questions message_lower)
                      ''purchase_process_inquiry'' signals;
          signals = append_if (detect_viewing_interest message_lower)
                      ''viewing_interest'' signals;
          signals = append_if (detect_current_situation message_lower)
                      ''current_situation_shared'' signals
      in signals)"


section \<open>Lead scorer (lead/detector.py, config.py)\<close>

text \<open>
  In this section Python floats are idealised as exact real numbers: a decimal literal of
  the source such as \<open>0.15\<close> is the real number 15/100, and \<open>+\<close>, \<open>*\<close>, \<open>min\<close> and
  the comparisons are the exact ones. The idealisation serves the order properties of the
  score and the turn; the value the program computes in IEEE double arithmetic is the
  subject of the section on double precision below. Python's unbounded \<open>int\<close> is \<open>int\<close>,
  a \<open>str\<close> is a \<open>string\<close>.
\<close>

subsection \<open>Settings\<close>

text \<open>The lead-scoring and retrieval fields of \<open>config.Settings\<close>, with their defaults.\<close>

record settings =
  TOP_K_RESULTS :: nat
  SIMILARITY_THRESHOLD :: real
  INTENT_LOW_THRESHOLD :: real
  INTENT_MEDIUM_THRESHOLD :: real
  INTENT_HIGH_THRESHOLD :: real

definition default_settings :: settings where
  "default_settings =
     \<lparr> TOP_K_RESULTS = 5,
       SIMILARITY_THRESHOLD = 0.7,
       INTENT_LOW_THRESHOLD = 0.3,
       INTENT_MEDIUM_THRESHOLD = 0.6,
       INTENT_HIGH_THRESHOLD = 0.8 \<rparr>"

subsection \<open>Intent score\<close>

text \<open>The dictionary \<open>signal_weights\<close> of \<open>calculate_intent_score\<close>.\<close>

definition signal_weights :: "string \<rightharpoonup> real" where
  "signal_weights = map_of
     [(''budget_mentioned'', 0.15),
      (''specific_requirements'', 0.12),
      (''timeline_mentioned'', 0.15),
      (''location_preference'', 0.08),
      (''luxury_feature_interest'', 0.08),
      (''comparison_intent'', 0.10),
      (''purchase_process_inquiry'', 0.15),
      (''viewing_interest'', 0.20),
      (''current_situation_shared'', 0.10)]"

text \<open>\<open>d.get(k, default)\<close> on a dictionary.\<close>

definition dict_get :: "('k \<rightharpoonup> 'v) \<Rightarrow> 'k \<Rightarrow> 'v \<Rightarrow> 'v" where
  "dict_get d k dflt = (case d k of Some v \<Rightarrow> v | None \<Rightarrow> dflt)"

text \<open>
  \<open>base_score = sum(signal_weights.get(signal, 0.05) for signal in signals)\<close>:
  Python's \<open>sum\<close> starts at 0 and adds the items from left to right.
\<close>

definition base_score :: "string list \<Rightarrow> real" where
  "base_score signals =
     foldl (\<lambda>acc signal. acc + dict_get signal_weights signal 0.05) 0 signals"

text \<open>\<open>engagement_bonus = min(conversation_length * 0.02, 0.15)\<close>.\<close>

definition engagement_bonus :: "int \<Rightarrow> real" where
  "engagement_bonus conversation_length = min (of_int conversation_length * 0.02) 0.15"

definition calculate_intent_score :: "string list \<Rightarrow> int \<Rightarrow> real" where
  "calculate_intent_score signals conversation_length =
     (let total_score = min (base_score signals + engagement_bonus conversation_length) 1.0
      in total_score)"

text \<open>
  The weight table as the specification words it: one fixed weight per tag, and 0.05
  for any tag that is not recognised.
\<close>

definition spec_weight :: "string \<Rightarrow> real" where
  "spec_weight tag =
     (if tag = ''budget_mentioned'' then 0.15
      else if tag = ''specific_requirements'' then 0.12
      else if tag = ''timeline_mentioned'' then 0.15
      else if tag = ''location_preference'' then 0.08
      else if tag = ''luxury_feature_interest'' then 0.08
      else if tag = ''comparison_intent'' then 0.10
      else if tag = ''purchase_process_inquiry'' then 0.15
      else if tag = ''viewing_interest'' then 0.20
      else if tag = ''current_situation_shared'' then 0.10
      else 0.05)"

subsection \<open>Tier, action and the lead-signals snapshot\<close>

definition classify_intent :: "settings \<Rightarrow> real \<Rightarrow> string" where
  "classify_intent cfg intent_score =
     (if intent_score \<ge> INTENT_HIGH_THRESHOLD cfg then ''high''
      else if intent_score \<ge> INTENT_MEDIUM_THRESHOLD cfg then ''medium''
      else ''low'')"

definition recommend_action :: "string \<Rightarrow> string list \<Rightarrow> string" where
  "recommend_action intent_level signals =
     (if intent_level = ''high'' then
        (if ''viewing_interest'' \<in> set signals then ''schedule_viewing_immediately''
         else ''capture_contact_and_schedule_callback'')
      else if intent_level = ''medium'' then
        (if ''specific_requirements'' \<in> set signals then ''show_floorplans_and_qualify''
         else if ''comparison_intent'' \<in> set signals
           then ''provide_comparison_capture_preference''
         else ''share_more_details_build_interest'')
      else ''educate_and_build_interest'')"

text \<open>
  \<open>round(x, 2)\<close>: the nearest multiple of 1/100, a tie going to the even one
  (Python rounds half to even).
\<close>

definition round_half_even :: "real \<Rightarrow> int" where
  "round_half_even y =
     (let f = \<lfloor>y\<rfloor>; d = y - of_int f
      in if d < 1/2 then f
         else if d > 1/2 then f + 1
         else if even f then f else f + 1)"

definition round2 :: "real \<Rightarrow> real" where
  "round2 x = of_int (round_half_even (x * 100)) / 100"

record lead_signals =
  intent :: string
  intent_score :: real
  signals_detected :: "string list"
  recommended_action :: string
  conversation_depth :: nat

definition generate_lead_signals_response ::
  "settings \<Rightarrow> string list \<Rightarrow> real \<Rightarrow> 'm list \<Rightarrow> lead_signals" where
  "generate_lead_signals_response cfg signals score conversation_history =
     (let intent_level = classify_intent cfg score;
          action = recommend_action intent_level signals
      in \<lparr> intent = intent_level,
           intent_score = round2 score,
           signals_detected = signals,
           recommended_action = action,
           conversation_depth = length conversation_history \<rparr>)"


section \<open>The intent score in double precision (lead/detector.py)\<close>

subsection \<open>IEEE 754 binary64 numbers\<close>


text \<open>\<open>pow2 e\<close> is 2 to the power \<open>e\<close>, for an integer \<open>e\<close> of either sign.\<close>

definition pow2 :: "int \<Rightarrow> rat" where
  "pow2 e = (if e \<ge> 0 then 2 ^ nat e else 1 / 2 ^ nat (- e))"

text \<open>
  \<open>binade x\<close> is the exponent of a positive rational: the integer \<open>e\<close> with
  \<open>2^e \<le> x < 2^(e+1)\<close>. For \<open>x = p/q\<close> it is the difference of the bit lengths of \<open>p\<close>
  and \<open>q\<close>, or one less.
\<close>

definition binade :: "rat \<Rightarrow> int" where
  "binade x =
     (let (p, q) = quotient_of x; d = bitlen p - bitlen q
      in if pow2 d \<le> x then d else d - 1)"










subsection \<open>The score\<close>





section \<open>Evidence store and retriever (retrieval/vector_store.py, retrieval/rag.py)\<close>

subsection \<open>Values, documents and the store\<close>

text \<open>
  A metadata value is \<open>None\<close>, an integer or a string; \<open>truthy\<close> is Python's truth
  test on it (\<open>if page\<close>).
\<close>

datatype pyval = PNone | PInt int | PStr string

fun truthy :: "pyval \<Rightarrow> bool" where
  "truthy PNone = False"
| "truthy (PInt n) = (n \<noteq> 0)"
| "truthy (PStr s) = (s \<noteq> [])"

text \<open>An exception of class \<open>Exception\<close>: an error of an external service, or a \<open>TypeError\<close>.\<close>

datatype exn = Error string | TypeError

text \<open>
  The metadata of a stored document, with the keys the retriever reads; \<open>None\<close> is an
  absent key. Text chunks carry \<open>page\<close> (ingestion/pdf_processor.py); image entries carry
  \<open>path\<close>, \<open>filename\<close>, \<open>page_number\<close> and \<open>description\<close>, the last one a string
  (\<open>add_image_metadata_to_vectorstore\<close> writes \<open>img_meta.get("description", "")\<close>).
\<close>

record doc_metadata =
  md_page :: "pyval option"
  md_path :: "pyval option"
  md_filename :: "pyval option"
  md_page_number :: "pyval option"
  md_description :: "string option"

record document =
  page_content :: string
  metadata :: doc_metadata

text \<open>
  The vector store is an external service (Chroma). It is a parameter of the model:
  the function \<open>similarity_search_with_score(query, k, filter)\<close>, which returns the raw
  ranked hits with their distances, or raises. \<open>similarity_search\<close> returns the documents
  of the same hits without the distances.
\<close>

type_synonym filter_dict = "(string \<times> string) list"

type_synonym vectorstore =
  "string \<Rightarrow> nat \<Rightarrow> filter_dict option \<Rightarrow> exn + (document \<times> real) list"

definition similarity_search_with_score ::
  "vectorstore \<Rightarrow> string \<Rightarrow> nat \<Rightarrow> filter_dict option \<Rightarrow> exn + (document \<times> real) list" where
  "similarity_search_with_score vs query k flt = vs query k flt"

definition similarity_search ::
  "vectorstore \<Rightarrow> string \<Rightarrow> nat \<Rightarrow> filter_dict option \<Rightarrow> exn + document list" where
  "similarity_search vs query k flt =
     (case vs query k flt of Inl e \<Rightarrow> Inl e | Inr hits \<Rightarrow> Inr (map fst hits))"

text \<open>\<open>k or settings.TOP_K_RESULTS\<close>, and the test \<open>if filter_dict\<close>.\<close>

definition k_or_default :: "settings \<Rightarrow> nat option \<Rightarrow> nat" where
  "k_or_default cfg k =
     (case k of None \<Rightarrow> TOP_K_RESULTS cfg
      | Some n \<Rightarrow> if n = 0 then TOP_K_RESULTS cfg else n)"

definition filter_given :: "filter_dict option \<Rightarrow> bool" where
  "filter_given flt = (case flt of None \<Rightarrow> False | Some f \<Rightarrow> f \<noteq> [])"

text \<open>
  \<open>search_vectorstore\<close>: the documents of the store's hits, and \<open>[]\<close> when the store
  raises (\<open>except Exception: return []\<close>).
\<close>

definition search_vectorstore ::
  "settings \<Rightarrow> vectorstore \<Rightarrow> string \<Rightarrow> nat option \<Rightarrow> filter_dict option \<Rightarrow> document list" where
  "search_vectorstore cfg vs query k flt =
     (let k = k_or_default cfg k;
          body = (if filter_given flt then similarity_search vs query k flt
                  else similarity_search vs query k None)
      in case body of Inr results \<Rightarrow> results | Inl e \<Rightarrow> [])"

text \<open>
  \<open>search_with_scores\<close>: the hits of the store whose distance is at most
  \<open>1 - SIMILARITY_THRESHOLD\<close>, and \<open>[]\<close> when the store raises.
\<close>

definition search_with_scores ::
  "settings \<Rightarrow> vectorstore \<Rightarrow> string \<Rightarrow> nat option \<Rightarrow> filter_dict option
     \<Rightarrow> (document \<times> real) list" where
  "search_with_scores cfg vs query k flt =
     (let k = k_or_default cfg k;
          body = (if filter_given flt then similarity_search_with_score vs query k flt
                  else similarity_search_with_score vs query k None)
      in case body of
           Inr results \<Rightarrow>
             filter (\<lambda>(doc, score). score \<le> 1 - SIMILARITY_THRESHOLD cfg) results
         | Inl e \<Rightarrow> [])"

definition get_pdf_documents :: "settings \<Rightarrow> vectorstore \<Rightarrow> string \<Rightarrow> nat \<Rightarrow> document list" where
  "get_pdf_documents cfg vs query k =
     search_vectorstore cfg vs query (Some k) (Some [(''source_type'', ''floorplans_pdf'')])"

definition get_image_documents :: "settings \<Rightarrow> vectorstore \<Rightarrow> string \<Rightarrow> nat \<Rightarrow> document list" where
  "get_image_documents cfg vs query k =
     search_vectorstore cfg vs query (Some k) (Some [(''source_type'', ''floorplan_image'')])"

subsection \<open>Retriever\<close>

text \<open>The records \<open>retrieve_context\<close> builds from the hits: a text hit and an image hit.\<close>

record pdf_result =
  content :: string
  pdf_metadata :: doc_metadata
  source :: string
  page :: pyval

record image_result =
  path :: pyval
  description :: string
  img_page :: pyval
  filename :: pyval
  relevance :: string

text \<open>\<open>d.get(key, default)\<close> and \<open>d.get(key)\<close> on an optional metadata key.\<close>

definition get_or :: "'a option \<Rightarrow> 'a \<Rightarrow> 'a" where
  "get_or v dflt = (case v of Some x \<Rightarrow> x | None \<Rightarrow> dflt)"

definition pdf_result_of :: "document \<Rightarrow> pdf_result" where
  "pdf_result_of doc =
     \<lparr> content = page_content doc,
       pdf_metadata = metadata doc,
       source = ''floorplans_pdf'',
       page = get_or (md_page (metadata doc)) (PStr ''unknown'') \<rparr>"

definition image_result_of :: "document \<Rightarrow> image_result" where
  "image_result_of doc =
     \<lparr> path = get_or (md_path (metadata doc)) (PStr ''''),
       description = get_or (md_description (metadata doc)) '''',
       img_page = get_or (md_page_number (metadata doc)) PNone,
       filename = get_or (md_filename (metadata doc)) (PStr ''''),
       relevance = ''floorplan'' \<rparr>"

definition retrieve_context ::
  "settings \<Rightarrow> vectorstore \<Rightarrow> string \<Rightarrow> nat \<Rightarrow> nat \<Rightarrow> pdf_result list \<times> image_result list" where
  "retrieve_context cfg vs query top_k_pdf top_k_images =
     (let pdf_docs = get_pdf_documents cfg vs query top_k_pdf;
          pdf_results = map pdf_result_of pdf_docs;
          image_docs = get_image_documents cfg vs query top_k_images;
          image_results =
            map image_result_of
              (filter (\<lambda>doc. truthy (get_or (md_path (metadata doc)) PNone)) image_docs)
      in (pdf_results, image_results))"

subsection \<open>Context block\<close>

text \<open>\<open>str(n)\<close> of an integer, and the text an f-string gives for a metadata value.\<close>

fun nat_digits :: "nat \<Rightarrow> string" where
  "nat_digits n =
     (if n < 10 then [''0123456789'' ! n]
      else nat_digits (n div 10) @ [''0123456789'' ! (n mod 10)])"

definition str_int :: "int \<Rightarrow> string" where
  "str_int i = (if i < 0 then ''-'' @ nat_digits (nat (- i)) else nat_digits (nat i))"

fun str_pyval :: "pyval \<Rightarrow> string" where
  "str_pyval PNone = ''None''"
| "str_pyval (PInt i) = str_int i"
| "str_pyval (PStr s) = s"

text \<open>\<open>sep.join(parts)\<close>.\<close>

fun join :: "string \<Rightarrow> string list \<Rightarrow> string" where
  "join sep [] = []"
| "join sep [p] = p"
| "join sep (p # q # ps) = p @ sep @ join sep (q # ps)"

definition format_context_for_prompt :: "pdf_result list \<Rightarrow> string" where
  "format_context_for_prompt pdf_results =
     (if pdf_results = [] then ''No relevant information found in floorplans document.''
      else
        join ([CHR 0x0A] @ ''---'' @ [CHR 0x0A])
          (map (\<lambda>result.
                  ''[Source: Floorplans PDF, Page '' @ str_pyval (page result) @ '']''
                  @ [CHR 0x0A] @ content result @ [CHR 0x0A])
             pdf_results))"

subsection \<open>Citations\<close>

definition extract_villa_type_from_content :: "string \<Rightarrow> string" where
  "extract_villa_type_from_content text =
     (let content_upper = upper text in
      if py_in ''3BR'' content_upper \<or> py_in ''3 BEDROOM'' content_upper then
        (if py_in ''TYPE B'' content_upper \<or> py_in ''POOL'' content_upper
         then ''3BR MIA Type B with Pool'' else ''3BR MIA Type A'')
      else if py_in ''4BR'' content_upper \<or> py_in ''4 BEDROOM'' content_upper then
        (if py_in ''TYPE B'' content_upper \<or> py_in ''POOL'' content_upper
         then ''4BR SHADEA Type B with Pool'' else ''4BR SHADEA Type A'')
      else if py_in ''5BR'' content_upper \<or> py_in ''5 BEDROOM'' content_upper then
        (if py_in ''TYPE B'' content_upper
         then ''5BR MODEA Type B'' else ''5BR MODEA Type A'')
      else ''General information'')"

record citation =
  cit_source :: string
  cit_page :: pyval
  villa_type :: string

text \<open>The citation \<open>extract_citations\<close> appends for a hit.\<close>

definition citation_of :: "pdf_result \<Rightarrow> citation" where
  "citation_of result =
     \<lparr> cit_source = ''floorplans_pdf'',
       cit_page = page result,
       villa_type = extract_villa_type_from_content (content result) \<rparr>"

text \<open>
  One round of the loop of \<open>extract_citations\<close>, on the pair of \<open>citations\<close> and
  \<open>seen_pages\<close>.
\<close>

definition citation_step ::
  "citation list \<times> pyval set \<Rightarrow> pdf_result \<Rightarrow> citation list \<times> pyval set" where
  "citation_step st result =
     (let citations = fst st; seen_pages = snd st; pg = page result in
      if truthy pg \<and> pg \<notin> seen_pages
      then (citations @ [citation_of result], insert pg seen_pages)
      else (citations, seen_pages))"

definition extract_citations :: "pdf_result list \<Rightarrow> citation list" where
  "extract_citations pdf_results = fst (foldl citation_step ([], {}) pdf_results)"

text \<open>
  The specification's words for the hits that are cited: a stable de-duplication keyed
  by page, in which the first hit of a page wins.
\<close>

fun first_per_page :: "pdf_result list \<Rightarrow> pdf_result list" where
  "first_per_page [] = []"
| "first_per_page (r # rs) = r # first_per_page (filter (\<lambda>q. page q \<noteq> page r) rs)"

subsection \<open>Mentioned properties and the image decision\<close>

definition villa_mappings :: "(string \<times> string list) list" where
  "villa_mappings =
     [(''3BR-MIA-TYPE-A'', [''3BR'', ''MIA'', ''TYPE A'']),
      (''3BR-MIA-TYPE-B'', [''3BR'', ''MIA'', ''TYPE B'', ''POOL'']),
      (''4BR-SHADEA-TYPE-A'', [''4BR'', ''SHADEA'', ''TYPE A'']),
      (''4BR-SHADEA-TYPE-B'', [''4BR'', ''SHADEA'', ''TYPE B'', ''POOL'']),
      (''5BR-MODEA-TYPE-A'', [''5BR'', ''MODEA'', ''TYPE A'']),
      (''5BR-MODEA-TYPE-B'', [''5BR'', ''MODEA'', ''TYPE B''])]"

text \<open>
  \<open>identify_mentioned_properties\<close> returns \<open>list(set(properties))\<close>: the order in which
  Python lists the elements of a set is not fixed by the program, so the conversion is
  the parameter \<open>list_of_set\<close> of the model.
\<close>

definition identify_mentioned_properties ::
  "(string list \<Rightarrow> string list) \<Rightarrow> string \<Rightarrow> string list" where
  "identify_mentioned_properties list_of_set response_text =
     (let response_upper = upper response_text;
          properties =
            map fst
              (filter (\<lambda>(villa_id, keywords).
                         length (filter (\<lambda>kw. py_in kw response_upper) keywords) \<ge> 2)
                 villa_mappings)
      in list_of_set properties)"

definition should_include_images :: "string \<Rightarrow> bool" where
  "should_include_images query =
     (let query_lower = lower query in
      list_ex (\<lambda>keyword. py_in keyword query_lower)
        [''floor plan'', ''floorplan'', ''layout'', ''show'', ''see'', ''look'',
         ''design'', ''image'', ''picture'', ''visual'', ''configuration'',
         ''how does'', ''what does'', ''ground floor'', ''first floor''])"

subsection \<open>Image ranker\<close>

text \<open>\<open>mentioned_pages = set(r.get("page") for r in pdf_results if r.get("page"))\<close>.\<close>

definition mentioned_pages :: "pdf_result list \<Rightarrow> pyval set" where
  "mentioned_pages pdf_results = set (filter truthy (map page pdf_results))"

text \<open>The body of the scoring loop: the score of one image.\<close>

definition image_score :: "pyval set \<Rightarrow> string \<Rightarrow> image_result \<Rightarrow> int" where
  "image_score pages query img =
     (let score = 0;
          score = (if img_page img \<in> pages then score + 10 else score);
          descr = lower (description img);
          query_lower = lower query;
          score = (if py_in ''3 bedroom'' query_lower \<or> py_in ''3br'' query_lower
                   then (if py_in ''3br'' descr then score + 5 else score) else score);
          score = (if py_in ''4 bedroom'' query_lower \<or> py_in ''4br'' query_lower
                   then (if py_in ''4br'' descr then score + 5 else score) else score);
          score = (if py_in ''5 bedroom'' query_lower \<or> py_in ''5br'' query_lower
                   then (if py_in ''5br'' descr then score + 5 else score) else score);
          score = (if py_in ''pool'' query_lower \<and> py_in ''pool'' descr
                   then score + 3 else score)
      in score)"

text \<open>
  \<open>scored_images.sort(key=lambda x: x[0], reverse=True)\<close>: Python's sort is stable, also
  with \<open>reverse=True\<close>, so it is the stable sort by descending score, that is the stable
  sort by ascending negated score.
\<close>

definition sort_descending :: "(int \<times> 'a) list \<Rightarrow> (int \<times> 'a) list" where
  "sort_descending scored = sort_key (\<lambda>x. - fst x) scored"

definition rank_images_by_relevance ::
  "image_result list \<Rightarrow> string \<Rightarrow> pdf_result list \<Rightarrow> image_result list" where
  "rank_images_by_relevance images query pdf_results =
     (if images = [] then []
      else
        let pages = mentioned_pages pdf_results;
            scored_images = map (\<lambda>img. (image_score pages query img, img)) images
        in map snd (sort_descending scored_images))"

text \<open>
  The specification's words for the score: 10 for an image whose page number is a page
  of the text hits, 5 for each of the bedroom counts 3, 4 and 5 whose token the query and
  the description share, and 3 when both mention a pool. An image has a page number when
  its page is truthy (not \<open>None\<close>; page numbers are positive, so 0 and the empty string
  are no page numbers either). The query shows a bedroom count \<open>k\<close> by \<open>k bedroom\<close> or
  \<open>kbr\<close>, the description by \<open>kbr\<close>.
\<close>

definition shares_bedroom_token :: "string \<Rightarrow> string \<Rightarrow> string \<Rightarrow> bool" where
  "shares_bedroom_token k query descr =
     ((py_in (k @ '' bedroom'') (lower query) \<or> py_in (k @ ''br'') (lower query))
      \<and> py_in (k @ ''br'') (lower descr))"

definition spec_image_score :: "pdf_result list \<Rightarrow> string \<Rightarrow> image_result \<Rightarrow> int" where
  "spec_image_score pdf_results query img =
     (if truthy (img_page img) \<and> img_page img \<in> set (map page pdf_results) then 10 else 0)
     + 5 * int (length (filter (\<lambda>k. shares_bedroom_token k query (description img))
                          [''3'', ''4'', ''5'']))
     + (if py_in ''pool'' (lower query) \<and> py_in ''pool'' (lower (description img))
        then 3 else 0)"


section \<open>Session store (utils/session.py)\<close>

text \<open>
  The module-level dictionary \<open>_sessions\<close> is the state: a map from session ids to
  sessions, passed to every operation and returned updated. \<open>datetime.now()\<close> is the
  argument \<open>now\<close> of an operation (one reading of the clock for each operation).
\<close>

record message =
  role :: string
  msg_content :: string
  timestamp :: nat

record session =
  session_id :: string
  created_at :: nat
  updated_at :: nat
  messages :: "message list"
  properties_viewed :: "string list"
  lead_info :: "string \<rightharpoonup> string"
  lead_status :: string
  buying_signals :: "string list"

type_synonym sessions = "string \<rightharpoonup> session"

definition new_session :: "nat \<Rightarrow> string \<Rightarrow> session" where
  "new_session now sid =
     \<lparr> session_id = sid,
       created_at = now,
       updated_at = now,
       messages = [],
       properties_viewed = [],
       lead_info = Map.empty,
       lead_status = ''new'',
       buying_signals = [] \<rparr>"

text \<open>
  \<open>get_session\<close> returns the session of the store (created when absent), which the
  caller then mutates in place: the model returns the store together with that session,
  and a mutation writes the session back under its id.
\<close>

definition get_session :: "nat \<Rightarrow> sessions \<Rightarrow> string \<Rightarrow> sessions \<times> session" where
  "get_session now st sid =
     (case st sid of
        None \<Rightarrow> (let s = new_session now sid in (st(sid \<mapsto> s), s))
      | Some s \<Rightarrow> (let s' = s\<lparr>updated_at := now\<rparr> in (st(sid \<mapsto> s'), s')))"

definition add_message :: "nat \<Rightarrow> sessions \<Rightarrow> string \<Rightarrow> string \<Rightarrow> string \<Rightarrow> sessions" where
  "add_message now st sid r c =
     (let (st, session) = get_session now st sid;
          session = session\<lparr>messages := messages session
                               @ [\<lparr>role = r, msg_content = c, timestamp = now\<rparr>]\<rparr>;
          session = session\<lparr>updated_at := now\<rparr>
      in st(sid \<mapsto> session))"

definition add_property_viewed :: "nat \<Rightarrow> sessions \<Rightarrow> string \<Rightarrow> string \<Rightarrow> sessions" where
  "add_property_viewed now st sid property_id =
     (let (st, session) = get_session now st sid in
      if property_id \<notin> set (properties_viewed session)
      then st(sid \<mapsto> session\<lparr>properties_viewed := properties_viewed session @ [property_id]\<rparr>)
      else st)"

definition add_buying_signal :: "nat \<Rightarrow> sessions \<Rightarrow> string \<Rightarrow> string \<Rightarrow> sessions" where
  "add_buying_signal now st sid signal =
     (let (st, session) = get_session now st sid in
      if signal \<notin> set (buying_signals session)
      then st(sid \<mapsto> session\<lparr>buying_signals := buying_signals session @ [signal]\<rparr>)
      else st)"

definition update_lead_status :: "nat \<Rightarrow> sessions \<Rightarrow> string \<Rightarrow> string \<Rightarrow> sessions" where
  "update_lead_status now st sid status =
     (let (st, session) = get_session now st sid
      in st(sid \<mapsto> session\<lparr>lead_status := status\<rparr>))"

text \<open>\<open>messages[-last_n:]\<close> for a positive \<open>last_n\<close>, and all messages otherwise.\<close>

definition get_conversation_history ::
  "nat \<Rightarrow> sessions \<Rightarrow> string \<Rightarrow> int option \<Rightarrow> sessions \<times> message list" where
  "get_conversation_history now st sid last_n =
     (let (st, session) = get_session now st sid;
          msgs = messages session
      in case last_n of
           None \<Rightarrow> (st, msgs)
         | Some n \<Rightarrow> if n > 0 then (st, drop (length msgs - nat n) msgs) else (st, msgs))"

text \<open>
  \<open>session["lead_info"].update(new_contact_info)\<close> in \<open>process_chat_message\<close>: the
  mutation of the stored session through the reference \<open>get_session\<close> returned.
\<close>

definition merge_lead_info :: "sessions \<Rightarrow> string \<Rightarrow> (string \<times> string) list \<Rightarrow> sessions" where
  "merge_lead_info st sid new_contact_info =
     (case st sid of
        None \<Rightarrow> st
      | Some session \<Rightarrow>
          st(sid \<mapsto> session\<lparr>lead_info := lead_info session ++ map_of new_contact_info\<rparr>))"

text \<open>
  Reading through the reference \<open>session\<close>: the store's entry for the id (the object
  itself when the store has no entry for it).
\<close>

definition deref :: "sessions \<Rightarrow> string \<Rightarrow> session \<Rightarrow> session" where
  "deref st sid session = (case st sid of Some s \<Rightarrow> s | None \<Rightarrow> session)"


text \<open>
  The collections and fields of the session stored under an id; a session that does not
  exist yet has none (it is created with empty collections).
\<close>

definition signals_at :: "sessions \<Rightarrow> string \<Rightarrow> string list" where
  "signals_at st sid = (case st sid of None \<Rightarrow> [] | Some s \<Rightarrow> buying_signals s)"

definition viewed_at :: "sessions \<Rightarrow> string \<Rightarrow> string list" where
  "viewed_at st sid = (case st sid of None \<Rightarrow> [] | Some s \<Rightarrow> properties_viewed s)"

definition messages_at :: "sessions \<Rightarrow> string \<Rightarrow> message list" where
  "messages_at st sid = (case st sid of None \<Rightarrow> [] | Some s \<Rightarrow> messages s)"

definition lead_info_at :: "sessions \<Rightarrow> string \<Rightarrow> (string \<rightharpoonup> string)" where
  "lead_info_at st sid = (case st sid of None \<Rightarrow> Map.empty | Some s \<Rightarrow> lead_info s)"

text \<open>
  A later state of the store extends an earlier one: every session of the earlier
  state is still there, its two collections are prefixes of the later ones, and the later
  ones are free of duplicates when the earlier ones are (a session created in between has
  collections free of duplicates).
\<close>

definition no_duplicates :: "session \<Rightarrow> bool" where
  "no_duplicates s = (distinct (buying_signals s) \<and> distinct (properties_viewed s))"

definition session_grows :: "session \<Rightarrow> session \<Rightarrow> bool" where
  "session_grows s s' =
     (prefix (buying_signals s) (buying_signals s') \<and>
      prefix (properties_viewed s) (properties_viewed s') \<and>
      (distinct (buying_signals s) \<longrightarrow> distinct (buying_signals s')) \<and>
      (distinct (properties_viewed s) \<longrightarrow> distinct (properties_viewed s')))"

definition store_grows :: "sessions \<Rightarrow> sessions \<Rightarrow> bool" where
  "store_grows st st' =
     (\<forall>sid. case st sid of
              Some s \<Rightarrow> (\<exists>s'. st' sid = Some s' \<and> session_grows s s')
            | None \<Rightarrow> (case st' sid of None \<Rightarrow> True | Some s' \<Rightarrow> no_duplicates s'))"

section \<open>Generation and the turn (services/llm.py, services/chat.py)\<close>

subsection \<open>External collaborators\<close>

text \<open>
  The parts of a turn that the model takes as parameters:
  \<^item> \<open>extract_contact_info\<close>, the contact fields found in a message (a dictionary, as
    the list of its items with distinct keys);
  \<^item> \<open>chat_completion\<close>, the statements of the \<open>try\<close> block of \<open>generate_response\<close> up
    to \<open>response.choices[0].message.content\<close>: the client, the two prompts and the call
    of the provider, which returns the content (a string or \<open>None\<close>) or raises;
  \<^item> \<open>list_of_set\<close>, the order of \<open>list(set(...))\<close>.
\<close>

record externals =
  extract_contact_info :: "string \<Rightarrow> (string \<times> string) list"
  chat_completion ::
    "string \<Rightarrow> string \<Rightarrow> message list \<Rightarrow> (string \<rightharpoonup> string) \<Rightarrow> string list
       \<Rightarrow> exn + string option"
  list_of_set :: "string list \<Rightarrow> string list"

subsection \<open>Generation\<close>

definition fallback_reply :: string where
  "fallback_reply =
     ''I apologize, but I'' @ [CHR 0x27] @ ''m having trouble processing your request right now. ''
     @ ''Please try again or contact our sales team for immediate assistance.''"

text \<open>
  The \<open>try\<close> block of \<open>generate_response\<close>: the content of the provider's answer, or the
  exception raised; \<open>len(generated_text)\<close> raises \<open>TypeError\<close> on the content \<open>None\<close>.
\<close>

definition generate_response_body ::
  "externals \<Rightarrow> string \<Rightarrow> string \<Rightarrow> message list \<Rightarrow> (string \<rightharpoonup> string) \<Rightarrow> string list
     \<Rightarrow> exn + string" where
  "generate_response_body ext query context conversation_history info signals =
     (case chat_completion ext query context conversation_history info signals of
        Inl e \<Rightarrow> Inl e
      | Inr None \<Rightarrow> Inl TypeError
      | Inr (Some generated_text) \<Rightarrow> Inr generated_text)"

text \<open>
  \<open>generate_response\<close>: the result is \<open>Inr\<close> of the text the function returns, or
  \<open>Inl\<close> of an exception it lets through to its caller.
\<close>

definition generate_response ::
  "externals \<Rightarrow> string \<Rightarrow> string \<Rightarrow> message list \<Rightarrow> (string \<rightharpoonup> string) \<Rightarrow> string list
     \<Rightarrow> exn + string" where
  "generate_response ext query context conversation_history info signals =
     (case generate_response_body ext query context conversation_history info signals of
        Inr generated_text \<Rightarrow> Inr generated_text
      | Inl e \<Rightarrow> Inr fallback_reply)"

text \<open>\<open>not lead_info.get(key)\<close>: the key is absent or its value is empty.\<close>

definition missing :: "(string \<rightharpoonup> string) \<Rightarrow> string \<Rightarrow> bool" where
  "missing info key = (case info key of None \<Rightarrow> True | Some v \<Rightarrow> v = [])"

definition generate_follow_up_prompt ::
  "string \<Rightarrow> string list \<Rightarrow> (string \<rightharpoonup> string) \<Rightarrow> string \<Rightarrow> string" where
  "generate_follow_up_prompt intent_level signals info action =
     (if intent_level = ''high'' \<and> ''viewing_interest'' \<in> set signals then
        (if missing info ''phone''
         then ''I'' @ [CHR 0x27] @ ''d be happy to arrange a viewing for you. Could you share your ''
              @ ''phone number so our agent can coordinate the best time?''
         else ''I can arrange a site visit for you. What days this week work best for your schedule?'')
      else if intent_level = ''high'' then
        ''These villas tend to move quickly. Would you like to schedule a viewing or speak ''
        @ ''with one of our property consultants?''
      else if intent_level = ''medium'' \<and> ''specific_requirements'' \<in> set signals then
        (if missing info ''email''
         then ''I can send you detailed floor plans and specifications via email. What''
              @ [CHR 0x27] @ ''s the best email address to reach you?''
         else ''Would you like me to send you detailed floor plans and a comparison of the ''
              @ ''villa types that match your requirements?'')
      else if intent_level = ''medium'' \<and> ''comparison_intent'' \<in> set signals then
        ''I can create a detailed comparison for you. Which specific features are most ''
        @ ''important for your decision?''
      else
        ''What aspects of the villas would you like to know more about? I'' @ [CHR 0x27]
        @ ''m here to help with any questions.'')"

subsection \<open>The turn\<close>

record chat_turn_result =
  response :: string
  properties_mentioned :: "string list"
  citations :: "citation list"
  images :: "image_result list"
  turn_lead_signals :: lead_signals
  follow_up_prompt :: string

text \<open>
  \<open>process_chat_message\<close>: the result of the turn (\<open>Inl\<close> of an exception that leaves
  the function) and the store as the turn leaves it. The argument \<open>context\<close> of the
  source is not read by it, and the whole turn reads the clock once (\<open>now\<close>).
\<close>

definition process_chat_message ::
  "settings \<Rightarrow> externals \<Rightarrow> nat \<Rightarrow> string \<Rightarrow> string \<Rightarrow> 'c \<Rightarrow> vectorstore \<Rightarrow> sessions
     \<Rightarrow> (exn + chat_turn_result) \<times> sessions" where
  "process_chat_message cfg ext now message sid context vs st =
     (let (st, session) = get_session now st sid;
          st = add_message now st sid ''user'' message;
          new_contact_info = extract_contact_info ext message;
          st = (if new_contact_info \<noteq> [] then merge_lead_info st sid new_contact_info else st);
          (st, conversation_history) = get_conversation_history now st sid None;
          signals = detect_buying_signals message conversation_history;
          st = foldl (\<lambda>st signal. add_buying_signal now st sid signal) st signals;
          all_signals = buying_signals (deref st sid session);
          score = calculate_intent_score all_signals (int (length conversation_history));
          lead = generate_lead_signals_response cfg all_signals score conversation_history;
          (pdf_results, image_results) = retrieve_context cfg vs message 5 3;
          formatted_context = format_context_for_prompt pdf_results
      in case generate_response ext message formatted_context (butlast conversation_history)
                (lead_info (deref st sid session)) all_signals of
           Inl e \<Rightarrow> (Inl e, st)
         | Inr response_text \<Rightarrow>
             (let st = add_message now st sid ''assistant'' response_text;
                  mentioned_properties =
                    identify_mentioned_properties (list_of_set ext) response_text;
                  st = foldl (\<lambda>st prop. add_property_viewed now st sid prop) st
                         mentioned_properties;
                  cits = extract_citations pdf_results;
                  include_images =
                    (should_include_images message \<or> length mentioned_properties > 0);
                  relevant_images =
                    (if include_images \<and> image_results \<noteq> []
                     then take 3 (rank_images_by_relevance image_results message pdf_results)
                     else []);
                  follow_up =
                    generate_follow_up_prompt (intent lead) all_signals
                      (lead_info (deref st sid session)) (recommended_action lead)
              in (Inr \<lparr> response = response_text,
                        properties_mentioned = mentioned_properties,
                        citations = cits,
                        images = relevant_images,
                        turn_lead_signals = lead,
                        follow_up_prompt = follow_up \<rparr>, st)))"

text \<open>
  A sequence of operations on the store: the operations of session.py that a turn
  uses, the merge of contact fields, \<open>update_lead_status\<close>, and whole turns.
\<close>

datatype 'c store_op =
    GetSession string
  | AddMessage string string string
  | AddPropertyViewed string string
  | AddBuyingSignal string string
  | UpdateLeadStatus string string
  | MergeLeadInfo string "(string \<times> string) list"
  | GetConversationHistory string "int option"
  | Turn settings externals string string 'c vectorstore

fun apply_store_op :: "nat \<Rightarrow> sessions \<Rightarrow> 'c store_op \<Rightarrow> sessions" where
  "apply_store_op now st (GetSession sid) = fst (get_session now st sid)"
| "apply_store_op now st (AddMessage sid r c) = add_message now st sid r c"
| "apply_store_op now st (AddPropertyViewed sid p) = add_property_viewed now st sid p"
| "apply_store_op now st (AddBuyingSignal sid s) = add_buying_signal now st sid s"
| "apply_store_op now st (UpdateLeadStatus sid s) = update_lead_status now st sid s"
| "apply_store_op now st (MergeLeadInfo sid info) = merge_lead_info st sid info"
| "apply_store_op now st (GetConversationHistory sid n) =
     fst (get_conversation_history now st sid n)"
| "apply_store_op now st (Turn cfg ext message sid context vs) =
     snd (process_chat_message cfg ext now message sid context vs st)"

text \<open>The operations run in order, each at its own time.\<close>

fun run_store_ops :: "sessions \<Rightarrow> (nat \<times> 'c store_op) list \<Rightarrow> sessions" where
  "run_store_ops st [] = st"
| "run_store_ops st ((now, op) # ops) = run_store_ops (apply_store_op now st op) ops"


section \<open>Example data\<close>

text \<open>
  A text chunk of a page as ingestion stores it, an image entry as
  \<open>add_image_metadata_to_vectorstore\<close> stores it, and a store that answers every query
  for text chunks with one chunk at distance 0.9 (and has no images).
\<close>

definition text_chunk :: "int \<Rightarrow> string \<Rightarrow> document" where
  "text_chunk p text =
     \<lparr> page_content = text,
       metadata = \<lparr> md_page = Some (PInt p), md_path = None, md_filename = None,
                    md_page_number = None, md_description = None \<rparr> \<rparr>"

definition image_entry :: "string \<Rightarrow> int \<Rightarrow> string \<Rightarrow> document" where
  "image_entry name p descr =
     \<lparr> page_content = descr,
       metadata = \<lparr> md_page = None, md_path = Some (PStr (''data/WebP/'' @ name)),
                    md_filename = Some (PStr name), md_page_number = Some (PInt p),
                    md_description = Some descr \<rparr> \<rparr>"

definition distant_hit_store :: vectorstore where
  "distant_hit_store query k flt =
     (if flt = Some [(''source_type'', ''floorplans_pdf'')]
      then Inr [(text_chunk 4 ''3BR MIA Type A'', 0.9)]
      else Inr [])"


text \<open>
  External collaborators for a turn in which no contact field is found and the provider
  fails with a timeout; \<open>list(set(...))\<close> keeps the order of the list.
\<close>

definition failing_externals :: externals where
  "failing_externals =
     \<lparr> extract_contact_info = (\<lambda>message. []),
       chat_completion = (\<lambda>query context history info signals. Inl (Error ''timeout'')),
       list_of_set = remdups \<rparr>"


section \<open>Properties of the lead scorer\<close>

lemma dict_get_signal_weights: "dict_get signal_weights tag 0.05 = spec_weight tag"
  by (simp add: dict_get_def signal_weights_def spec_weight_def)

lemma foldl_add_sum_list:
  "foldl (\<lambda>acc x. acc + f x) a xs = (a::real) + sum_list (map f xs)"
  by (induction xs arbitrary: a) simp_all

lemma base_score_sum: "base_score signals = sum_list (map spec_weight signals)"
  by (simp only: base_score_def dict_get_signal_weights foldl_add_sum_list add_0)



text \<open>
  In exact arithmetic the score is \<open>min (W + min (n * 0.02) 0.15) 1\<close>, where \<open>W\<close> is the
  sum of the weights of the table over the tags of the list.
\<close>

lemma calculate_intent_score_exact:
  "calculate_intent_score signals n =
     min (sum_list (map spec_weight signals) + min (of_int n * 0.02) 0.15) 1.0"
  by (simp add: calculate_intent_score_def base_score_sum engagement_bonus_def)

subsection \<open>The score in double precision\<close>

text \<open>\<open>binade\<close> is the exponent: \<open>2^(binade x) \<le> x < 2^(binade x + 1)\<close>.\<close>

lemma pow2_power_int: "pow2 e = 2 powi e"
  by (simp add: pow2_def power_int_def inverse_eq_divide power_one_over)

lemma bitlen_powi:
  assumes "0 < k"
  shows "(2::rat) powi (bitlen k - 1) \<le> of_int k" "(of_int k :: rat) < 2 powi (bitlen k)"
proof -
  from assms have b: "1 \<le> bitlen k" by (simp add: bitlen_alt_def)
  from bitlen_bounds [OF assms] have lo: "(2::int) ^ nat (bitlen k - 1) \<le> k"
    and hi: "k < (2::int) ^ nat (bitlen k)" by simp_all
  from lo have "(of_int ((2::int) ^ nat (bitlen k - 1)) :: rat) \<le> of_int k"
    by (simp only: of_int_le_iff)
  then show "(2::rat) powi (bitlen k - 1) \<le> of_int k"
    using b by (simp add: power_int_def)
  from hi have "(of_int k :: rat) < of_int ((2::int) ^ nat (bitlen k))"
    by (simp only: of_int_less_iff)
  then show "(of_int k :: rat) < 2 powi (bitlen k)"
    using b by (simp add: power_int_def)
qed

lemma binade_bounds:
  assumes "0 < x"
  shows "pow2 (binade x) \<le> x \<and> x < pow2 (binade x + 1)"
proof -
  obtain p q where pq: "quotient_of x = (p, q)" by (cases "quotient_of x")
  then have q: "0 < q" and x: "x = of_int p / of_int q"
    by (simp_all add: quotient_of_denom_pos quotient_of_div)
  from assms x q have p: "0 < p"
    by (simp add: zero_less_divide_iff)
  define d where "d = bitlen p - bitlen q"
  have pw: "(0::rat) < 2 powi k" for k by simp
  have "of_int p / of_int q < (2::rat) powi (bitlen p) / 2 powi (bitlen q - 1)"
    using bitlen_powi [OF p] bitlen_powi [OF q] p pw [of "bitlen q - 1"]
    by (intro frac_less) simp_all
  also have "\<dots> = 2 powi (d + 1)"
  proof -
    have "(2::rat) powi (d + 1) = 2 powi (bitlen p - (bitlen q - 1))"
      by (rule arg_cong [where f = "\<lambda>k. 2 powi k"]) (simp add: d_def)
    also have "\<dots> = 2 powi (bitlen p) / 2 powi (bitlen q - 1)"
      by (rule power_int_diff) simp
    finally show ?thesis by (rule sym)
  qed
  finally have hi: "x < 2 powi (d + 1)" by (simp only: x)
  have "(2::rat) powi (bitlen p - 1) / 2 powi (bitlen q) < of_int p / of_int q"
    using bitlen_powi [OF p] bitlen_powi [OF q] q pw [of "bitlen p - 1"]
    by (intro frac_less2) simp_all
  moreover have "(2::rat) powi (bitlen p - 1) / 2 powi (bitlen q) = 2 powi (d - 1)"
  proof -
    have "(2::rat) powi (d - 1) = 2 powi ((bitlen p - 1) - bitlen q)"
      by (rule arg_cong [where f = "\<lambda>k. 2 powi k"]) (simp add: d_def)
    also have "\<dots> = 2 powi (bitlen p - 1) / 2 powi (bitlen q)"
      by (rule power_int_diff) simp
    finally show ?thesis by (rule sym)
  qed
  ultimately have lo: "2 powi (d - 1) < x" by (simp only: x)
  have b: "binade x = (if pow2 d \<le> x then d else d - 1)"
    unfolding binade_def pq d_def by (simp only: Let_def prod.case)
  show ?thesis
  proof (cases "pow2 d \<le> x")
    case True
    then have e: "binade x = d" by (simp only: b if_True)
    from True hi show ?thesis
      unfolding e pow2_power_int by (rule conjI)
  next
    case False
    then have e: "binade x = d - 1" by (simp only: b if_False)
    have s: "d - 1 + 1 = d" by simp
    from False have "x < 2 powi d"
      unfolding pow2_power_int by (simp only: not_le)
    with lo show ?thesis
      unfolding e s pow2_power_int by (intro conjI less_imp_le)
  qed
qed












text \<open>
  C2. Under the default thresholds 0.3/0.6/0.8, \<open>classify_intent s\<close> is \<open>high\<close> exactly
  when \<open>s \<ge> 0.8\<close>, \<open>medium\<close> exactly when \<open>0.6 \<le> s < 0.8\<close>, and \<open>low\<close> exactly in the
  remaining case \<open>s < 0.6\<close>. The boundaries are inclusive: 0.8 is \<open>high\<close>, 0.7999 is not
  \<open>high\<close>, 0.6 is \<open>medium\<close> (at least medium), 0.29 is \<open>low\<close>.
\<close>

theorem classify_intent_default_tiers:
  "(classify_intent default_settings s = ''high'') = (s \<ge> 0.8) \<and>
   (classify_intent default_settings s = ''medium'') = (0.6 \<le> s \<and> s < 0.8) \<and>
   (classify_intent default_settings s = ''low'') = (s < 0.6) \<and>
   classify_intent default_settings s \<in> {''high'', ''medium'', ''low''} \<and>
   classify_intent default_settings 0.8 = ''high'' \<and>
   classify_intent default_settings 0.7999 \<noteq> ''high'' \<and>
   classify_intent default_settings 0.6 \<in> {''medium'', ''high''} \<and>
   classify_intent default_settings 0.29 = ''low''"
  by (simp add: classify_intent_def default_settings_def)



text \<open>
  C10. \<open>generate_lead_signals_response\<close> takes the tier from the unrounded score and
  reports the score rounded to 2 decimal places. At the score 0.799 (below 0.8, rounded
  to 0.8) the snapshot holds \<open>intent_score\<close> 0.8 together with the tier \<open>medium\<close>: the
  reported score equals the threshold of \<open>high\<close> while the reported tier is the one below.
\<close>

theorem generate_lead_signals_response_rounded_score_tier:
  "intent (generate_lead_signals_response cfg signals s h) = classify_intent cfg s \<and>
   intent_score (generate_lead_signals_response cfg signals s h) = round2 s \<and>
   (0.799::real) < 0.8 \<and> round2 0.799 = 0.8 \<and>
   intent_score (generate_lead_signals_response default_settings signals 0.799 h) = 0.8 \<and>
   intent (generate_lead_signals_response default_settings signals 0.799 h) = ''medium'' \<and>
   classify_intent default_settings 0.8 = ''high''"
  by (simp add: generate_lead_signals_response_def Let_def round2_def round_half_even_def
      classify_intent_def default_settings_def)

section \<open>Properties of the citations\<close>

lemma citation_foldl:
  "fst (foldl citation_step (cs, seen) rs) =
     cs @ map citation_of
            (first_per_page (filter (\<lambda>r. truthy (page r) \<and> page r \<notin> seen) rs))"
proof (induction rs arbitrary: cs seen)
  case Nil
  then show ?case by simp
next
  case (Cons r rs)
  have eq: "filter (\<lambda>q. page q \<noteq> page r) (filter (\<lambda>r. truthy (page r) \<and> page r \<notin> seen) rs)
     = filter (\<lambda>q. truthy (page q) \<and> page q \<notin> insert (page r) seen) rs"
    by (auto simp: filter_filter intro: filter_cong)
  show ?case
  proof (cases "truthy (page r) \<and> page r \<notin> seen")
    case True
    then have "citation_step (cs, seen) r = (cs @ [citation_of r], insert (page r) seen)"
      by (simp add: citation_step_def)
    then show ?thesis using True Cons.IH [of "cs @ [citation_of r]" "insert (page r) seen"] eq
      by simp
  next
    case False
    then have "citation_step (cs, seen) r = (cs, seen)"
      by (auto simp add: citation_step_def)
    then show ?thesis using False Cons.IH [of cs seen] by auto
  qed
qed

lemma extract_citations_first_per_page:
  "extract_citations rs = map citation_of (first_per_page (filter (\<lambda>r. truthy (page r)) rs))"
  by (simp add: extract_citations_def citation_foldl)

lemma first_per_page_subset: "set (first_per_page rs) \<subseteq> set rs"
  by (induction rs rule: first_per_page.induct) auto

lemma remdups_snoc: "remdups (xs @ [p]) = filter (\<lambda>x. x \<noteq> p) (remdups xs) @ [p]"
  by (induction xs) auto

lemma first_per_page_pages:
  "map page (first_per_page rs) = rev (remdups (rev (map page rs)))"
proof (induction rs rule: first_per_page.induct)
  case 1
  then show ?case by simp
next
  case (2 r rs)
  have "map page (filter (\<lambda>q. page q \<noteq> page r) rs) = filter (\<lambda>p. p \<noteq> page r) (map page rs)"
    by (simp add: filter_map comp_def)
  with 2 show ?case
    by (simp add: remdups_snoc rev_filter remdups_filter)
qed

lemma find_filter_implied:
  "(\<And>x. P x \<Longrightarrow> Q x) \<Longrightarrow> find P (filter Q xs) = find P xs"
  by (induction xs) auto

lemma first_per_page_find:
  "r \<in> set (first_per_page rs) \<Longrightarrow> find (\<lambda>q. page q = page r) rs = Some r"
proof (induction rs rule: first_per_page.induct)
  case 1
  then show ?case by simp
next
  case (2 q rs)
  show ?case
  proof (cases "r = q")
    case True
    then show ?thesis by simp
  next
    case False
    with 2 have mem: "r \<in> set (first_per_page (filter (\<lambda>x. page x \<noteq> page q) rs))"
      by simp
    then have ne: "page r \<noteq> page q"
      using first_per_page_subset [of "filter (\<lambda>x. page x \<noteq> page q) rs"] by auto
    have "find (\<lambda>x. page x = page r) (filter (\<lambda>x. page x \<noteq> page q) rs)
            = find (\<lambda>x. page x = page r) rs"
      using ne by (intro find_filter_implied) auto
    with 2 mem ne show ?thesis by auto
  qed
qed

lemma find_filter_truthy:
  "truthy (page r) \<Longrightarrow>
     find (\<lambda>q. page q = page r) (filter (\<lambda>r. truthy (page r)) rs) = find (\<lambda>q. page q = page r) rs"
  by (intro find_filter_implied) auto

text \<open>
  C5. For every list of text hits, \<open>extract_citations\<close> returns at most one citation for
  each page (the pages of the citations are distinct); the pages of the citations are
  the truthy pages of the hits in the order in which they are first seen; and each
  citation is the one built from the first hit of the list that has its page, so that
  this hit supplies the villa-type label.
\<close>

theorem extract_citations_first_seen:
  "distinct (map cit_page (extract_citations rs)) \<and>
   map cit_page (extract_citations rs) = rev (remdups (rev (filter truthy (map page rs)))) \<and>
   (\<forall>c \<in> set (extract_citations rs).
      \<exists>r. find (\<lambda>q. page q = cit_page c) rs = Some r \<and> c = citation_of r)"
proof (intro conjI ballI)
  have pg: "map cit_page (extract_citations rs) = map page (first_per_page (filter (\<lambda>r. truthy (page r)) rs))"
    by (simp add: extract_citations_first_per_page citation_of_def comp_def)
  have fm: "map page (filter (\<lambda>r. truthy (page r)) rs) = filter truthy (map page rs)"
    by (simp add: filter_map comp_def)
  show o: "map cit_page (extract_citations rs) = rev (remdups (rev (filter truthy (map page rs))))"
    by (simp only: pg first_per_page_pages fm)
  show "distinct (map cit_page (extract_citations rs))"
    by (simp only: o distinct_rev distinct_remdups)
next
  fix c assume "c \<in> set (extract_citations rs)"
  then obtain r where r: "r \<in> set (first_per_page (filter (\<lambda>r. truthy (page r)) rs))"
      "c = citation_of r"
    by (auto simp: extract_citations_first_per_page)
  then have t: "truthy (page r)"
    using first_per_page_subset [of "filter (\<lambda>r. truthy (page r)) rs"] by auto
  have "find (\<lambda>q. page q = page r) rs = Some r"
    using first_per_page_find [OF r(1)] find_filter_truthy [OF t, of rs] by simp
  then show "\<exists>r. find (\<lambda>q. page q = cit_page c) rs = Some r \<and> c = citation_of r"
    using r(2) by (auto simp: citation_of_def)
qed

theorem extract_citations_first_seen_witness:
  "\<lparr>cit_source = ''floorplans_pdf'', cit_page = PInt 4, villa_type = ''3BR MIA Type B with Pool''\<rparr>
     \<in> set (extract_citations
          (map pdf_result_of
             [text_chunk 4 ''3BR villa with pool'', text_chunk 5 ''4BR villa'',
              text_chunk 4 ''5BR villa''])) \<and>
   map cit_page (extract_citations
          (map pdf_result_of
             [text_chunk 4 ''3BR villa with pool'', text_chunk 5 ''4BR villa'',
              text_chunk 4 ''5BR villa''])) = [PInt 4, PInt 5] \<and>
   (\<exists>r. find (\<lambda>q. page q = PInt 4)
          (map pdf_result_of
             [text_chunk 4 ''3BR villa with pool'', text_chunk 5 ''4BR villa'',
              text_chunk 4 ''5BR villa'']) = Some r \<and>
        \<lparr>cit_source = ''floorplans_pdf'', cit_page = PInt 4,
          villa_type = ''3BR MIA Type B with Pool''\<rparr> = citation_of r)"
proof -
  let ?rs = "map pdf_result_of
             [text_chunk 4 ''3BR villa with pool'', text_chunk 5 ''4BR villa'',
              text_chunk 4 ''5BR villa'']"
  let ?c = "\<lparr>cit_source = ''floorplans_pdf'', cit_page = PInt 4,
              villa_type = ''3BR MIA Type B with Pool''\<rparr>"
  have e: "extract_citations ?rs =
      [?c, \<lparr>cit_source = ''floorplans_pdf'', cit_page = PInt 5, villa_type = ''4BR SHADEA Type A''\<rparr>]"
    by code_simp
  have mem: "?c \<in> set (extract_citations ?rs)"
    by (simp only: e) simp
  have pages: "map cit_page (extract_citations ?rs) = [PInt 4, PInt 5]"
    by (simp only: e) simp
  from extract_citations_first_seen [of ?rs] mem
  have "\<exists>r. find (\<lambda>q. page q = cit_page ?c) ?rs = Some r \<and> ?c = citation_of r"
    by blast
  then have "\<exists>r. find (\<lambda>q. page q = PInt 4) ?rs = Some r \<and> ?c = citation_of r"
    by simp
  with mem pages show ?thesis by blast
qed

section \<open>Properties of the image ranker\<close>

lemma image_score_spec:
  "image_score (mentioned_pages pdf_results) query img = spec_image_score pdf_results query img"
  by (auto simp: image_score_def spec_image_score_def shares_bedroom_token_def Let_def
      mentioned_pages_def)

lemma sort_descending_mset: "mset (sort_descending xs) = mset xs"
  by (simp add: sort_descending_def)

lemma sort_descending_sorted:
  "sorted_wrt (\<lambda>a b. fst a \<ge> fst b) (sort_descending xs)"
proof -
  have "sorted (map (\<lambda>x. - fst x) (sort_descending xs))"
    by (simp add: sort_descending_def sorted_sort_key)
  then show ?thesis
    by (simp add: sorted_map sorted_wrt_iff_nth_less)
qed

lemma sort_descending_stable:
  "filter (\<lambda>x. fst x = k) (sort_descending xs) = filter (\<lambda>x. fst x = k) xs"
  using sort_key_stable [of "\<lambda>x. - fst x" "- k" xs]
  by (simp add: sort_descending_def)

lemma rank_images_scored:
  "rank_images_by_relevance imgs query prs =
     map snd (sort_descending (map (\<lambda>img. (spec_image_score prs query img, img)) imgs))"
  by (simp add: rank_images_by_relevance_def Let_def image_score_spec sort_descending_def)


lemma rank_images_mset: "mset (rank_images_by_relevance imgs query prs) = mset imgs"
proof -
  have "mset (map snd (sort_descending (map (\<lambda>img. (spec_image_score prs query img, img)) imgs)))
          = image_mset snd (mset (map (\<lambda>img. (spec_image_score prs query img, img)) imgs))"
    by (simp only: mset_map sort_descending_mset)
  also have "\<dots> = mset imgs"
    by (simp add: image_mset.compositionality comp_def)
  finally show ?thesis by (simp only: rank_images_scored)
qed

lemma rank_images_sorted:
  "sorted_wrt (\<lambda>a b. spec_image_score prs query a \<ge> spec_image_score prs query b)
     (rank_images_by_relevance imgs query prs)"
proof -
  let ?sc = "spec_image_score prs query"
  let ?ys = "sort_descending (map (\<lambda>img. (?sc img, img)) imgs)"
  have "set ?ys = set (map (\<lambda>img. (?sc img, img)) imgs)"
    by (rule mset_eq_setD) (rule sort_descending_mset)
  then have fst_snd: "\<And>x. x \<in> set ?ys \<Longrightarrow> fst x = ?sc (snd x)"
    by auto
  have "sorted_wrt (\<lambda>a b. fst a \<ge> fst b) ?ys"
    by (rule sort_descending_sorted)
  then have "sorted_wrt (\<lambda>a b. ?sc (snd a) \<ge> ?sc (snd b)) ?ys"
    by (rule sorted_wrt_mono_rel [rotated]) (simp add: fst_snd)
  then show ?thesis
    by (simp add: rank_images_scored sorted_wrt_map)
qed

lemma rank_images_stable:
  "filter (\<lambda>img. spec_image_score prs query img = k) (rank_images_by_relevance imgs query prs)
     = filter (\<lambda>img. spec_image_score prs query img = k) imgs"
proof -
  let ?sc = "spec_image_score prs query"
  let ?xs = "map (\<lambda>img. (?sc img, img)) imgs"
  let ?ys = "sort_descending ?xs"
  have "set ?ys = set ?xs"
    by (rule mset_eq_setD) (rule sort_descending_mset)
  then have fst_snd: "\<And>x. x \<in> set ?ys \<Longrightarrow> (?sc (snd x) = k) = (fst x = k)"
    by auto
  have "filter (\<lambda>img. ?sc img = k) (map snd ?ys) = map snd (filter (\<lambda>x. ?sc (snd x) = k) ?ys)"
    by (simp add: filter_map comp_def)
  also have "\<dots> = map snd (filter (\<lambda>x. fst x = k) ?ys)"
    by (intro arg_cong [where f = "map snd"] filter_cong) (simp_all add: fst_snd)
  also have "\<dots> = map snd (filter (\<lambda>x. fst x = k) ?xs)"
    by (simp only: sort_descending_stable)
  also have "\<dots> = filter (\<lambda>img. ?sc img = k) imgs"
    by (simp add: filter_map comp_def)
  finally show ?thesis by (simp only: rank_images_scored)
qed

lemma page_bonus_score:
  assumes "description a = description b" "truthy (img_page a)"
    "img_page a \<in> set (map page prs)" "img_page b \<notin> set (map page prs)"
  shows "spec_image_score prs query a = spec_image_score prs query b + 10"
  using assms by (simp add: spec_image_score_def)

lemma sorted_wrt_before:
  assumes "sorted_wrt (\<lambda>x y. f x \<ge> (f y :: int)) r" "i < length r" "j < length r"
    "f (r ! i) > f (r ! j)"
  shows "i < j"
proof (rule ccontr)
  assume "\<not> i < j"
  then consider "i = j" | "j < i" by linarith
  then show False
  proof cases
    case 1
    with assms(4) show ?thesis by simp
  next
    case 2
    with assms(1,2) have "f (r ! j) \<ge> f (r ! i)"
      by (simp add: sorted_wrt_iff_nth_less)
    with assms(4) show ?thesis by simp
  qed
qed

text \<open>
  C6. For every list of images, every query and every list of text hits: the score of an
  image is 10 if its page number is a page of the text hits, plus 5 for each bedroom
  count 3, 4, 5 whose token the query and the description share, plus 3 if both mention
  a pool. \<open>rank_images_by_relevance\<close> returns the same images (a permutation), sorted
  by descending score, and images of equal score keep their original relative order. Of
  two images with the same description, of which only the first has its page among the
  pages of the text hits, the first stands strictly before the second in the result.
\<close>

theorem rank_images_by_relevance_order:
  "image_score (mentioned_pages prs) query img = spec_image_score prs query img \<and>
   mset (rank_images_by_relevance imgs query prs) = mset imgs \<and>
   sorted_wrt (\<lambda>a b. spec_image_score prs query a \<ge> spec_image_score prs query b)
     (rank_images_by_relevance imgs query prs) \<and>
   filter (\<lambda>img. spec_image_score prs query img = k) (rank_images_by_relevance imgs query prs)
     = filter (\<lambda>img. spec_image_score prs query img = k) imgs \<and>
   (a \<in> set imgs \<and> b \<in> set imgs \<and> description a = description b \<and> truthy (img_page a) \<and>
    img_page a \<in> set (map page prs) \<and> img_page b \<notin> set (map page prs) \<longrightarrow>
      a \<in> set (rank_images_by_relevance imgs query prs) \<and>
      b \<in> set (rank_images_by_relevance imgs query prs) \<and>
      (\<forall>i j. i < length (rank_images_by_relevance imgs query prs) \<and>
             j < length (rank_images_by_relevance imgs query prs) \<and>
             rank_images_by_relevance imgs query prs ! i = a \<and>
             rank_images_by_relevance imgs query prs ! j = b \<longrightarrow> i < j))"
proof (intro conjI impI allI)
  show "image_score (mentioned_pages prs) query img = spec_image_score prs query img"
    by (rule image_score_spec)
  show "mset (rank_images_by_relevance imgs query prs) = mset imgs"
    by (rule rank_images_mset)
  show "sorted_wrt (\<lambda>a b. spec_image_score prs query a \<ge> spec_image_score prs query b)
     (rank_images_by_relevance imgs query prs)"
    by (rule rank_images_sorted)
  show "filter (\<lambda>img. spec_image_score prs query img = k) (rank_images_by_relevance imgs query prs)
     = filter (\<lambda>img. spec_image_score prs query img = k) imgs"
    by (rule rank_images_stable)
next
  assume h: "a \<in> set imgs \<and> b \<in> set imgs \<and> description a = description b \<and> truthy (img_page a) \<and>
    img_page a \<in> set (map page prs) \<and> img_page b \<notin> set (map page prs)"
  have s: "set (rank_images_by_relevance imgs query prs) = set imgs"
    by (rule mset_eq_setD) (rule rank_images_mset)
  show "a \<in> set (rank_images_by_relevance imgs query prs)" using h s by simp
  show "b \<in> set (rank_images_by_relevance imgs query prs)" using h s by simp
  fix i j
  assume ij: "i < length (rank_images_by_relevance imgs query prs) \<and>
             j < length (rank_images_by_relevance imgs query prs) \<and>
             rank_images_by_relevance imgs query prs ! i = a \<and>
             rank_images_by_relevance imgs query prs ! j = b"
  have "spec_image_score prs query a = spec_image_score prs query b + 10"
    using h by (intro page_bonus_score) simp_all
  then have "spec_image_score prs query (rank_images_by_relevance imgs query prs ! i)
      > spec_image_score prs query (rank_images_by_relevance imgs query prs ! j)"
    using ij by simp
  with ij show "i < j"
    using sorted_wrt_before [OF rank_images_sorted [of prs query imgs], of i j] by simp
qed

theorem rank_images_by_relevance_order_witness:
  "image_result_of (image_entry ''plan-4.webp'' 4 ''3BR floorplan'')
     \<in> set (map image_result_of
          [image_entry ''plan-9.webp'' 9 ''3BR floorplan'',
           image_entry ''plan-4.webp'' 4 ''3BR floorplan'']) \<and>
   img_page (image_result_of (image_entry ''plan-4.webp'' 4 ''3BR floorplan''))
     \<in> set (map page (map pdf_result_of [text_chunk 4 ''3BR villa''])) \<and>
   img_page (image_result_of (image_entry ''plan-9.webp'' 9 ''3BR floorplan''))
     \<notin> set (map page (map pdf_result_of [text_chunk 4 ''3BR villa''])) \<and>
   rank_images_by_relevance
     (map image_result_of
        [image_entry ''plan-9.webp'' 9 ''3BR floorplan'',
         image_entry ''plan-4.webp'' 4 ''3BR floorplan''])
     ''3br'' (map pdf_result_of [text_chunk 4 ''3BR villa''])
   = map image_result_of
        [image_entry ''plan-4.webp'' 4 ''3BR floorplan'',
         image_entry ''plan-9.webp'' 9 ''3BR floorplan''] \<and>
   image_result_of (image_entry ''plan-4.webp'' 4 ''3BR floorplan'')
     \<in> set (rank_images_by_relevance
          (map image_result_of
             [image_entry ''plan-9.webp'' 9 ''3BR floorplan'',
              image_entry ''plan-4.webp'' 4 ''3BR floorplan''])
          ''3br'' (map pdf_result_of [text_chunk 4 ''3BR villa'']))"
proof -
  let ?a = "image_result_of (image_entry ''plan-4.webp'' 4 ''3BR floorplan'')"
  let ?b = "image_result_of (image_entry ''plan-9.webp'' 9 ''3BR floorplan'')"
  let ?imgs = "map image_result_of
          [image_entry ''plan-9.webp'' 9 ''3BR floorplan'',
           image_entry ''plan-4.webp'' 4 ''3BR floorplan'']"
  let ?prs = "map pdf_result_of [text_chunk 4 ''3BR villa'']"
  have pa: "img_page ?a \<in> set (map page ?prs)"
    by (simp add: image_result_of_def image_entry_def pdf_result_of_def text_chunk_def get_or_def)
  have pb: "img_page ?b \<notin> set (map page ?prs)"
    by (simp add: image_result_of_def image_entry_def pdf_result_of_def text_chunk_def get_or_def)
  have t: "truthy (img_page ?a)" "description ?a = description ?b"
    by (simp_all add: image_result_of_def image_entry_def get_or_def)
  have mem: "?a \<in> set ?imgs" "?b \<in> set ?imgs"
    by simp_all
  have e: "rank_images_by_relevance ?imgs ''3br'' ?prs
      = map image_result_of
        [image_entry ''plan-4.webp'' 4 ''3BR floorplan'',
         image_entry ''plan-9.webp'' 9 ''3BR floorplan'']"
    by code_simp
  from rank_images_by_relevance_order [of ?prs "''3br''" ?a ?imgs 0 ?a ?b] pa pb t mem
  have "?a \<in> set (rank_images_by_relevance ?imgs ''3br'' ?prs)"
    by blast
  with pa pb mem(1) e show ?thesis by blast
qed

section \<open>Properties of the signal detector\<close>

lemma detect_buying_signals_example:
  "detect_buying_signals ''4 Bedroom pool'' ([] :: message list)
     = [''specific_requirements'', ''luxury_feature_interest'']"
  by code_simp

text \<open>
  C9. For every message and every two conversation histories, \<open>detect_buying_signals\<close>
  returns the same list of signals: the result is a function of the message alone, and
  the history argument has no effect on it.
\<close>

theorem detect_buying_signals_ignores_history:
  "detect_buying_signals message h1 = detect_buying_signals message h2"
  by (simp add: detect_buying_signals_def)

section \<open>The retriever and the similarity threshold\<close>

text \<open>
  The text hits of \<open>retrieve_context\<close> are all the hits the store returns for the text
  class, whatever their distance.
\<close>

lemma retrieve_context_unfiltered:
  assumes "vs query k (Some [(''source_type'', ''floorplans_pdf'')]) = Inr hits" "k \<noteq> 0"
  shows "fst (retrieve_context cfg vs query k k') = map (\<lambda>h. pdf_result_of (fst h)) hits"
  using assms
  by (simp add: retrieve_context_def get_pdf_documents_def search_vectorstore_def
      k_or_default_def filter_given_def similarity_search_def Let_def comp_def)

lemma search_with_scores_threshold:
  "\<forall>(doc, score) \<in> set (search_with_scores cfg vs query k flt).
     score \<le> 1 - SIMILARITY_THRESHOLD cfg"
  by (auto simp: search_with_scores_def Let_def split: sum.splits)

text \<open>
  C4. The claim says that the retriever keeps a hit only if its distance is at most
  \<open>1 - SIMILARITY_THRESHOLD\<close>. The store \<open>distant_hit_store\<close> answers the query for text
  chunks with one hit at distance 0.9, above \<open>1 - 0.7\<close>: \<open>retrieve_context\<close> passes the
  hit on as a text hit, while \<open>search_with_scores\<close>, which applies the threshold and
  which \<open>retrieve_context\<close> does not call, drops it.
\<close>

theorem retrieve_context_keeps_distant_hit:
  "similarity_search_with_score distant_hit_store ''pool'' 5
       (Some [(''source_type'', ''floorplans_pdf'')])
     = Inr [(text_chunk 4 ''3BR MIA Type A'', 0.9)] \<and>
   \<not> (0.9 \<le> 1 - SIMILARITY_THRESHOLD default_settings) \<and>
   fst (retrieve_context default_settings distant_hit_store ''pool'' 5 3)
     = [pdf_result_of (text_chunk 4 ''3BR MIA Type A'')] \<and>
   search_with_scores default_settings distant_hit_store ''pool'' (Some 5)
       (Some [(''source_type'', ''floorplans_pdf'')]) = []"
  by (simp add: similarity_search_with_score_def distant_hit_store_def default_settings_def
      retrieve_context_def get_pdf_documents_def get_image_documents_def search_vectorstore_def
      search_with_scores_def k_or_default_def filter_given_def similarity_search_def Let_def)

section \<open>Properties of the session store\<close>

lemma session_grows_refl: "session_grows s s"
  by (simp add: session_grows_def)

lemma session_grows_trans: "session_grows a b \<Longrightarrow> session_grows b c \<Longrightarrow> session_grows a c"
  by (auto simp: session_grows_def intro: prefix_order.trans)

lemma session_grows_no_duplicates: "session_grows s s' \<Longrightarrow> no_duplicates s \<Longrightarrow> no_duplicates s'"
  by (simp add: session_grows_def no_duplicates_def)

lemma store_grows_refl: "store_grows st st"
  by (auto simp: store_grows_def session_grows_refl split: option.splits)

lemma store_grows_trans:
  assumes "store_grows a b" "store_grows b c"
  shows "store_grows a c"
  unfolding store_grows_def
proof
  fix sid
  show "case a sid of
          Some s \<Rightarrow> (\<exists>s'. c sid = Some s' \<and> session_grows s s')
        | None \<Rightarrow> (case c sid of None \<Rightarrow> True | Some s' \<Rightarrow> no_duplicates s')"
  proof (cases "a sid")
    case None
    show ?thesis
    proof (cases "b sid")
      case bn: None
      with assms(2) None show ?thesis
        by (auto simp: store_grows_def split: option.splits dest!: spec [of _ sid])
    next
      case (Some sb)
      with assms(1) None have "no_duplicates sb"
        by (auto simp: store_grows_def split: option.splits dest!: spec [of _ sid])
      moreover from assms(2) Some obtain sc where "c sid = Some sc" "session_grows sb sc"
        by (auto simp: store_grows_def split: option.splits dest!: spec [of _ sid])
      ultimately show ?thesis using None
        by (auto intro: session_grows_no_duplicates)
    qed
  next
    case (Some sa)
    with assms(1) obtain sb where b: "b sid = Some sb" "session_grows sa sb"
      by (auto simp: store_grows_def split: option.splits dest!: spec [of _ sid])
    with assms(2) obtain sc where "c sid = Some sc" "session_grows sb sc"
      by (auto simp: store_grows_def split: option.splits dest!: spec [of _ sid])
    with b Some show ?thesis
      by (auto intro: session_grows_trans)
  qed
qed

lemma store_grows_update:
  "(case st sid of Some s \<Rightarrow> session_grows s s' | None \<Rightarrow> no_duplicates s')
     \<Longrightarrow> store_grows st (st(sid \<mapsto> s'))"
  by (auto simp: store_grows_def session_grows_refl split: option.splits)

lemma get_session_grows: "store_grows st (fst (get_session now st sid))"
  by (cases "st sid")
     (auto simp: get_session_def Let_def new_session_def no_duplicates_def session_grows_def
           intro!: store_grows_update)

lemma add_message_grows: "store_grows st (add_message now st sid r c)"
  by (cases "st sid")
     (auto simp: add_message_def get_session_def Let_def new_session_def no_duplicates_def
           session_grows_def
           intro!: store_grows_update)

lemma add_buying_signal_grows: "store_grows st (add_buying_signal now st sid g)"
  by (cases "st sid")
     (auto simp: add_buying_signal_def get_session_def Let_def new_session_def no_duplicates_def
           session_grows_def
           intro!: store_grows_update)

lemma add_property_viewed_grows: "store_grows st (add_property_viewed now st sid p)"
  by (cases "st sid")
     (auto simp: add_property_viewed_def get_session_def Let_def new_session_def no_duplicates_def
           session_grows_def
           intro!: store_grows_update)

lemma update_lead_status_grows: "store_grows st (update_lead_status now st sid x)"
  by (cases "st sid")
     (auto simp: update_lead_status_def get_session_def Let_def new_session_def no_duplicates_def
           session_grows_def
           intro!: store_grows_update)

lemma merge_lead_info_grows: "store_grows st (merge_lead_info st sid info)"
  by (cases "st sid")
     (auto simp: merge_lead_info_def session_grows_def store_grows_refl
           intro!: store_grows_update)

lemma get_conversation_history_grows:
  "store_grows st (fst (get_conversation_history now st sid n))"
  using get_session_grows [of st now sid]
  by (auto simp: get_conversation_history_def Let_def split_beta split: option.splits)


lemma foldl_add_buying_signal_grows:
  "store_grows st (foldl (\<lambda>st g. add_buying_signal now st sid g) st gs)"
proof (induction gs arbitrary: st)
  case Nil
  show ?case by (simp add: store_grows_refl)
next
  case (Cons g gs)
  show ?case
    using store_grows_trans [OF add_buying_signal_grows Cons.IH] by simp
qed

lemma foldl_add_property_viewed_grows:
  "store_grows st (foldl (\<lambda>st p. add_property_viewed now st sid p) st ps)"
proof (induction ps arbitrary: st)
  case Nil
  show ?case by (simp add: store_grows_refl)
next
  case (Cons p ps)
  show ?case
    using store_grows_trans [OF add_property_viewed_grows Cons.IH] by simp
qed

lemmas grows_steps =
  store_grows_trans [OF _ get_session_grows]
  store_grows_trans [OF _ add_message_grows]
  store_grows_trans [OF _ merge_lead_info_grows]
  store_grows_trans [OF _ get_conversation_history_grows]
  store_grows_trans [OF _ foldl_add_buying_signal_grows]
  store_grows_trans [OF _ foldl_add_property_viewed_grows]

lemma process_chat_message_grows:
  "store_grows st (snd (process_chat_message cfg ext now message sid ctx vs st))"
  by (auto simp: process_chat_message_def Let_def split_beta split: sum.splits
      intro!: grows_steps store_grows_refl)

lemma apply_store_op_grows: "store_grows st (apply_store_op now st op)"
  by (cases op)
     (simp_all add: get_session_grows add_message_grows add_property_viewed_grows
        add_buying_signal_grows update_lead_status_grows merge_lead_info_grows
        get_conversation_history_grows process_chat_message_grows)

lemma run_store_ops_grows: "store_grows st (run_store_ops st ops)"
proof (induction ops arbitrary: st)
  case Nil
  show ?case by (simp add: store_grows_refl)
next
  case (Cons x ops)
  obtain now op where x: "x = (now, op)" by (cases x)
  show ?case
    using store_grows_trans [OF apply_store_op_grows Cons.IH] by (simp add: x)
qed

lemma add_buying_signal_present:
  "st sid = Some s \<Longrightarrow> g \<in> set (buying_signals s) \<Longrightarrow>
     signals_at (add_buying_signal now st sid g) sid = buying_signals s"
  by (simp add: add_buying_signal_def get_session_def Let_def signals_at_def)

lemma add_property_viewed_present:
  "st sid = Some s \<Longrightarrow> p \<in> set (properties_viewed s) \<Longrightarrow>
     viewed_at (add_property_viewed now st sid p) sid = properties_viewed s"
  by (simp add: add_property_viewed_def get_session_def Let_def viewed_at_def)

text \<open>
  C3. For every session of the store and every sequence of store operations and turns:
  the session is still there afterwards, its \<open>buying_signals\<close> and
  \<open>properties_viewed\<close> before the sequence are prefixes of the ones after it (so every
  tag or id present before is present after), and collections without duplicates stay
  without duplicates; a session that the sequence creates has collections without
  duplicates; and adding a tag or id that is already present leaves the collection as it
  is. (The sequence has no \<open>update_session\<close>, which no turn calls, and no expiry sweep,
  which ends the life of a session.)
\<close>

theorem session_collections_monotone:
  "(st sid = Some s \<longrightarrow>
      (\<exists>s'. run_store_ops st ops sid = Some s' \<and>
            prefix (buying_signals s) (buying_signals s') \<and>
            prefix (properties_viewed s) (properties_viewed s') \<and>
            set (buying_signals s) \<subseteq> set (buying_signals s') \<and>
            set (properties_viewed s) \<subseteq> set (properties_viewed s') \<and>
            (distinct (buying_signals s) \<longrightarrow> distinct (buying_signals s')) \<and>
            (distinct (properties_viewed s) \<longrightarrow> distinct (properties_viewed s')))) \<and>
   (st sid = None \<and> run_store_ops st ops sid = Some s'' \<longrightarrow>
      distinct (buying_signals s'') \<and> distinct (properties_viewed s'')) \<and>
   (st sid = Some s \<and> g \<in> set (buying_signals s) \<longrightarrow>
      signals_at (add_buying_signal now st sid g) sid = buying_signals s) \<and>
   (st sid = Some s \<and> p \<in> set (properties_viewed s) \<longrightarrow>
      viewed_at (add_property_viewed now st sid p) sid = properties_viewed s)"
proof (intro conjI impI)
  assume h: "st sid = Some s"
  from run_store_ops_grows [of st ops] h
  obtain s' where s': "run_store_ops st ops sid = Some s'" "session_grows s s'"
    by (auto simp: store_grows_def split: option.splits dest!: spec [of _ sid])
  then show "\<exists>s'. run_store_ops st ops sid = Some s' \<and>
            prefix (buying_signals s) (buying_signals s') \<and>
            prefix (properties_viewed s) (properties_viewed s') \<and>
            set (buying_signals s) \<subseteq> set (buying_signals s') \<and>
            set (properties_viewed s) \<subseteq> set (properties_viewed s') \<and>
            (distinct (buying_signals s) \<longrightarrow> distinct (buying_signals s')) \<and>
            (distinct (properties_viewed s) \<longrightarrow> distinct (properties_viewed s'))"
    by (auto simp: session_grows_def dest: set_mono_prefix)
next
  assume h: "st sid = None \<and> run_store_ops st ops sid = Some s''"
  with run_store_ops_grows [of st ops] have "no_duplicates s''"
    by (auto simp: store_grows_def split: option.splits dest!: spec [of _ sid])
  then show "distinct (buying_signals s'')" "distinct (properties_viewed s'')"
    by (simp_all add: no_duplicates_def)
next
  assume "st sid = Some s \<and> g \<in> set (buying_signals s)"
  then show "signals_at (add_buying_signal now st sid g) sid = buying_signals s"
    by (simp add: add_buying_signal_present)
next
  assume "st sid = Some s \<and> p \<in> set (properties_viewed s)"
  then show "viewed_at (add_property_viewed now st sid p) sid = properties_viewed s"
    by (simp add: add_property_viewed_present)
qed

theorem session_collections_monotone_witness:
  "(Map.empty(''s1'' \<mapsto> (new_session 0 ''s1'')\<lparr>buying_signals := [''viewing_interest'']\<rparr>)) ''s1''
     = Some ((new_session 0 ''s1'')\<lparr>buying_signals := [''viewing_interest'']\<rparr>) \<and>
   signals_at
     (run_store_ops
        (Map.empty(''s1'' \<mapsto> (new_session 0 ''s1'')\<lparr>buying_signals := [''viewing_interest'']\<rparr>))
        [(1, AddBuyingSignal ''s1'' ''viewing_interest''),
         (2, Turn default_settings failing_externals ''4 Bedroom pool'' ''s1'' ()
               distant_hit_store)])
     ''s1''
     = [''viewing_interest'', ''specific_requirements'', ''luxury_feature_interest''] \<and>
   (\<exists>s'. run_store_ops
        (Map.empty(''s1'' \<mapsto> (new_session 0 ''s1'')\<lparr>buying_signals := [''viewing_interest'']\<rparr>))
        [(1, AddBuyingSignal ''s1'' ''viewing_interest''),
         (2, Turn default_settings failing_externals ''4 Bedroom pool'' ''s1'' ()
               distant_hit_store)] ''s1'' = Some s' \<and>
      prefix [''viewing_interest''] (buying_signals s') \<and>
      distinct (buying_signals s') \<and> distinct (properties_viewed s'))"
proof -
  let ?s0 = "(new_session 0 ''s1'')\<lparr>buying_signals := [''viewing_interest'']\<rparr>"
  let ?st0 = "Map.empty(''s1'' \<mapsto> ?s0)"
  let ?ops = "[(1, AddBuyingSignal ''s1'' ''viewing_interest''),
         (2, Turn default_settings failing_externals ''4 Bedroom pool'' ''s1'' ()
               distant_hit_store)]"
  have a: "?st0 ''s1'' = Some ?s0" by simp
  have d: "distinct (buying_signals ?s0)" "distinct (properties_viewed ?s0)"
      "buying_signals ?s0 = [''viewing_interest'']"
    by (simp_all add: new_session_def)
  have e: "signals_at (run_store_ops ?st0 ?ops) ''s1''
     = [''viewing_interest'', ''specific_requirements'', ''luxury_feature_interest'']"
    by code_simp
  from session_collections_monotone
         [where st = ?st0 and sid = "''s1''" and s = ?s0 and ops = ?ops,
          THEN conjunct1, THEN mp, OF a]
  obtain s' where s': "run_store_ops ?st0 ?ops ''s1'' = Some s'"
      "prefix (buying_signals ?s0) (buying_signals s')"
      "distinct (buying_signals ?s0) \<longrightarrow> distinct (buying_signals s')"
      "distinct (properties_viewed ?s0) \<longrightarrow> distinct (properties_viewed s')"
    by blast
  from s'(2) d(3) have p: "prefix [''viewing_interest''] (buying_signals s')"
    by (simp only:)
  from s'(3,4) d(1,2) have dd: "distinct (buying_signals s')" "distinct (properties_viewed s')"
    by blast+
  from s'(1) p dd
  have "\<exists>s'. run_store_ops ?st0 ?ops ''s1'' = Some s' \<and>
      prefix [''viewing_interest''] (buying_signals s') \<and>
      distinct (buying_signals s') \<and> distinct (properties_viewed s')"
    by blast
  with a e show ?thesis by blast
qed

section \<open>Generation failures and the turn\<close>

lemmas view_defs = messages_at_def signals_at_def viewed_at_def lead_info_at_def

lemma get_session_views:
  "messages_at (fst (get_session now st sid)) x = messages_at st x"
  "signals_at (fst (get_session now st sid)) x = signals_at st x"
  "lead_info_at (fst (get_session now st sid)) x = lead_info_at st x"
  by (auto simp: get_session_def Let_def new_session_def view_defs split: option.splits)

lemma get_session_present: "fst (get_session now st sid) sid \<noteq> None"
  by (auto simp: get_session_def Let_def split: option.splits)

lemma add_message_views:
  "messages_at (add_message now st sid r c) sid
     = messages_at st sid @ [\<lparr>role = r, msg_content = c, timestamp = now\<rparr>]"
  "signals_at (add_message now st sid r c) x = signals_at st x"
  "lead_info_at (add_message now st sid r c) x = lead_info_at st x"
  by (auto simp: add_message_def get_session_def Let_def new_session_def view_defs
      split: option.splits)

lemma add_message_present: "add_message now st sid r c sid \<noteq> None"
  by (auto simp: add_message_def get_session_def Let_def split: option.splits)

lemma merge_lead_info_views:
  "messages_at (merge_lead_info st sid info) x = messages_at st x"
  "signals_at (merge_lead_info st sid info) x = signals_at st x"
  by (auto simp: merge_lead_info_def view_defs split: option.splits)

lemma get_conversation_history_views:
  "messages_at (fst (get_conversation_history now st sid n)) x = messages_at st x"
  "signals_at (fst (get_conversation_history now st sid n)) x = signals_at st x"
  "lead_info_at (fst (get_conversation_history now st sid n)) x = lead_info_at st x"
  "snd (get_conversation_history now st sid None) = messages_at st sid"
  using get_session_views [of now st sid]
  by (auto simp: get_conversation_history_def Let_def split_beta view_defs get_session_def
      new_session_def split: option.splits)

lemma add_buying_signal_views:
  "messages_at (add_buying_signal now st sid g) x = messages_at st x"
  "lead_info_at (add_buying_signal now st sid g) x = lead_info_at st x"
  by (auto simp: add_buying_signal_def get_session_def Let_def new_session_def view_defs
      split: option.splits)

lemma add_property_viewed_views:
  "messages_at (add_property_viewed now st sid p) x = messages_at st x"
  "signals_at (add_property_viewed now st sid p) x = signals_at st x"
  "lead_info_at (add_property_viewed now st sid p) x = lead_info_at st x"
  by (auto simp: add_property_viewed_def get_session_def Let_def new_session_def view_defs
      split: option.splits)

lemma foldl_add_buying_signal_views:
  "messages_at (foldl (\<lambda>st g. add_buying_signal now st sid g) st gs) x = messages_at st x"
  "lead_info_at (foldl (\<lambda>st g. add_buying_signal now st sid g) st gs) x = lead_info_at st x"
  by (induction gs arbitrary: st) (simp_all add: add_buying_signal_views)

lemma foldl_add_property_viewed_views:
  "messages_at (foldl (\<lambda>st p. add_property_viewed now st sid p) st ps) x = messages_at st x"
  "signals_at (foldl (\<lambda>st p. add_property_viewed now st sid p) st ps) x = signals_at st x"
  "lead_info_at (foldl (\<lambda>st p. add_property_viewed now st sid p) st ps) x = lead_info_at st x"
  by (induction ps arbitrary: st) (simp_all add: add_property_viewed_views)

lemma deref_views:
  "st sid \<noteq> None \<Longrightarrow> buying_signals (deref st sid x) = signals_at st sid"
  "st sid \<noteq> None \<Longrightarrow> lead_info (deref st sid x) = lead_info_at st sid"
  by (auto simp: deref_def view_defs)

lemma generate_response_returns:
  "\<exists>t. generate_response ext q c h i s = Inr t"
  by (simp add: generate_response_def split: sum.splits)

lemma generate_response_fallback:
  "generate_response_body ext q c h i s = Inl e \<Longrightarrow>
     generate_response ext q c h i s = Inr fallback_reply"
  by (simp add: generate_response_def)

lemma generate_response_failing_provider:
  "generate_response (ext\<lparr>chat_completion := (\<lambda>q c h i s. Inl e)\<rparr>) q c h i s = Inr fallback_reply"
  by (simp add: generate_response_def generate_response_body_def)


text \<open>
  C8. \<open>generate_response\<close> always returns a text and never lets an exception through
  to its caller; when an error is raised while the reply is produced, the text is the
  fixed apology. A turn whose provider fails completes normally: its reply is the
  apology, the user message and the apology are appended to the session, and the lead
  signals, the citations, the stored buying signals and the stored contact fields are the
  ones of the same turn with any other behaviour of the provider.
\<close>

theorem generate_response_never_propagates:
  "(\<exists>t. generate_response ext q c h i s = Inr t) \<and>
   (generate_response_body ext q c h i s = Inl e \<longrightarrow>
      generate_response ext q c h i s = Inr fallback_reply) \<and>
   (\<exists>r st' r2 st2.
      process_chat_message cfg (ext\<lparr>chat_completion := (\<lambda>q c h i s. Inl e)\<rparr>)
        now message sid ctx vs st = (Inr r, st') \<and>
      process_chat_message cfg ext now message sid ctx vs st = (Inr r2, st2) \<and>
      response r = fallback_reply \<and>
      messages_at st' sid =
        messages_at st sid
        @ [\<lparr>role = ''user'', msg_content = message, timestamp = now\<rparr>,
           \<lparr>role = ''assistant'', msg_content = fallback_reply, timestamp = now\<rparr>] \<and>
      messages_at st2 sid =
        messages_at st sid
        @ [\<lparr>role = ''user'', msg_content = message, timestamp = now\<rparr>,
           \<lparr>role = ''assistant'', msg_content = response r2, timestamp = now\<rparr>] \<and>
      turn_lead_signals r = turn_lead_signals r2 \<and>
      citations r = citations r2 \<and>
      signals_at st' sid = signals_at st2 sid \<and>
      lead_info_at st' sid = lead_info_at st2 sid)"
proof (intro conjI impI)
  show "\<exists>t. generate_response ext q c h i s = Inr t"
    by (rule generate_response_returns)
next
  assume "generate_response_body ext q c h i s = Inl e"
  then show "generate_response ext q c h i s = Inr fallback_reply"
    by (rule generate_response_fallback)
next
  let ?xf = "ext\<lparr>chat_completion := (\<lambda>q c h i s. Inl e)\<rparr>"
  define ci where "ci = extract_contact_info ext message"
  define st1 where "st1 = fst (get_session now st sid)"
  define sess where "sess = snd (get_session now st sid)"
  define st2 where "st2 = add_message now st1 sid ''user'' message"
  define st3 where "st3 = (if ci \<noteq> [] then merge_lead_info st2 sid ci else st2)"
  define st4 where "st4 = fst (get_conversation_history now st3 sid None)"
  define hist where "hist = snd (get_conversation_history now st3 sid None)"
  define sigs where "sigs = detect_buying_signals message hist"
  define st5 where "st5 = foldl (\<lambda>st g. add_buying_signal now st sid g) st4 sigs"
  define alls where "alls = buying_signals (deref st5 sid sess)"
  define lead where "lead = generate_lead_signals_response cfg alls
      (calculate_intent_score alls (int (length hist))) hist"
  define prs where "prs = fst (retrieve_context cfg vs message 5 3)"
  define fc where "fc = format_context_for_prompt prs"
  define info where "info = lead_info (deref st5 sid sess)"
  define final where "final = (\<lambda>(x::externals) t.
      foldl (\<lambda>st p. add_property_viewed now st sid p)
        (add_message now st5 sid ''assistant'' t)
        (identify_mentioned_properties (list_of_set x) t))"
  note defs = ci_def st1_def sess_def st2_def st3_def st4_def hist_def sigs_def st5_def
    alls_def lead_def prs_def fc_def info_def final_def
  have run: "\<exists>r. process_chat_message cfg x now message sid ctx vs st = (Inr r, final x t) \<and>
      response r = t \<and> turn_lead_signals r = lead \<and> citations r = extract_citations prs"
    if "extract_contact_info x = extract_contact_info ext"
      and "generate_response x message fc (butlast hist) info alls = Inr t" for x t
    using that unfolding defs process_chat_message_def Let_def split_beta
    by (simp split del: if_split cong del: if_weak_cong)
  have m2: "messages_at st5 sid
      = messages_at st sid @ [\<lparr>role = ''user'', msg_content = message, timestamp = now\<rparr>]"
    by (simp add: st5_def st4_def st3_def st2_def st1_def foldl_add_buying_signal_views
        get_conversation_history_views merge_lead_info_views add_message_views get_session_views)
  have fin: "messages_at (final x t) sid
        = messages_at st sid
          @ [\<lparr>role = ''user'', msg_content = message, timestamp = now\<rparr>,
             \<lparr>role = ''assistant'', msg_content = t, timestamp = now\<rparr>]"
      "signals_at (final x t) sid = signals_at st5 sid"
      "lead_info_at (final x t) sid = lead_info_at st5 sid" for x t
    by (simp_all add: final_def foldl_add_property_viewed_views add_message_views m2)
  obtain t2 where t2: "generate_response ext message fc (butlast hist) info alls = Inr t2"
    using generate_response_returns by blast
  have tf: "generate_response ?xf message fc (butlast hist) info alls = Inr fallback_reply"
    by (rule generate_response_failing_provider)
  from run [of ?xf fallback_reply] tf obtain r where
    r: "process_chat_message cfg ?xf now message sid ctx vs st = (Inr r, final ?xf fallback_reply)"
      "response r = fallback_reply" "turn_lead_signals r = lead"
      "citations r = extract_citations prs"
    by auto
  from run [of ext t2] t2 obtain r2 where
    r2: "process_chat_message cfg ext now message sid ctx vs st = (Inr r2, final ext t2)"
      "response r2 = t2" "turn_lead_signals r2 = lead" "citations r2 = extract_citations prs"
    by auto
  show "\<exists>r st' r2 st2.
      process_chat_message cfg ?xf now message sid ctx vs st = (Inr r, st') \<and>
      process_chat_message cfg ext now message sid ctx vs st = (Inr r2, st2) \<and>
      response r = fallback_reply \<and>
      messages_at st' sid =
        messages_at st sid
        @ [\<lparr>role = ''user'', msg_content = message, timestamp = now\<rparr>,
           \<lparr>role = ''assistant'', msg_content = fallback_reply, timestamp = now\<rparr>] \<and>
      messages_at st2 sid =
        messages_at st sid
        @ [\<lparr>role = ''user'', msg_content = message, timestamp = now\<rparr>,
           \<lparr>role = ''assistant'', msg_content = response r2, timestamp = now\<rparr>] \<and>
      turn_lead_signals r = turn_lead_signals r2 \<and>
      citations r = citations r2 \<and>
      signals_at st' sid = signals_at st2 sid \<and>
      lead_info_at st' sid = lead_info_at st2 sid"
    using r r2 fin [of ?xf fallback_reply] fin [of ext t2]
    by (intro exI [of _ r] exI [of _ "final ?xf fallback_reply"] exI [of _ r2]
        exI [of _ "final ext t2"]) simp
qed

theorem generate_response_never_propagates_witness:
  "generate_response_body failing_externals ''pool?'' ''context'' [] Map.empty []
     = Inl (Error ''timeout'') \<and>
   generate_response failing_externals ''pool?'' ''context'' [] Map.empty []
     = Inr fallback_reply \<and>
   messages_at
     (snd (process_chat_message default_settings failing_externals 1 ''4 Bedroom pool'' ''s1'' ()
             distant_hit_store Map.empty)) ''s1''
     = [\<lparr>role = ''user'', msg_content = ''4 Bedroom pool'', timestamp = 1\<rparr>,
        \<lparr>role = ''assistant'', msg_content = fallback_reply, timestamp = 1\<rparr>]"
proof -
  have b: "generate_response_body failing_externals ''pool?'' ''context'' [] Map.empty []
     = Inl (Error ''timeout'')"
    by (simp add: generate_response_body_def failing_externals_def)
  have t: "messages_at
     (snd (process_chat_message default_settings failing_externals 1 ''4 Bedroom pool'' ''s1'' ()
             distant_hit_store Map.empty)) ''s1''
     = [\<lparr>role = ''user'', msg_content = ''4 Bedroom pool'', timestamp = 1\<rparr>,
        \<lparr>role = ''assistant'', msg_content = fallback_reply, timestamp = 1\<rparr>]"
    by code_simp
  have "generate_response failing_externals ''pool?'' ''context'' [] Map.empty []
     = Inr fallback_reply"
    by (rule generate_response_never_propagates
         [where ext = failing_externals and q = "''pool?''" and c = "''context''" and h = "[]"
            and i = Map.empty and s = "[]" and e = "Error ''timeout''",
          THEN conjunct2, THEN conjunct1, THEN mp, OF b])
  with b t show ?thesis by blast
qed

end
